theory Spec2Isabelle
  imports Complex_Main "HOL-Library.AList"
begin

section \<open>Python values\<close>

text \<open>
  The values that \<^verbatim>\<open>json.loads\<close> and \<^verbatim>\<open>response.json()\<close> hand to the program.
  A \<^verbatim>\<open>dict\<close> is an association list in insertion order, read with \<open>map_of\<close>
  and written with \<open>AList.update\<close>, which replaces the value of a key that is
  present in place and appends a new key at the end, as Python does. A character of a
  \<open>string\<close> stands for one character of a Python \<^verbatim>\<open>str\<close>.
\<close>

datatype pyval =
    PNone
  | PBool bool
  | PInt int
  | PFloat rat
  | PStr string
  | PList "pyval list"
  | PDict "(string \<times> pyval) list"

text \<open>The exceptions the program can raise to its caller.\<close>

datatype py_error =
    FileNotFoundError
  | JSONDecodeError
  | AttributeError string string
  | TypeError nat string

text \<open>
  What the two handlers of \<^verbatim>\<open>query_ollama\<close> tell apart:
  \<^verbatim>\<open>requests.exceptions.Timeout\<close>, and any other \<^verbatim>\<open>Exception\<close> with its text.
\<close>

datatype exn = Timeout | Exception string

definition TAB :: char where
  "TAB = CHR 0x09"

definition NL :: char where
  "NL = CHR 0x0A"

definition type_name :: "pyval \<Rightarrow> string" where
  "type_name v =
     (case v of
        PNone \<Rightarrow> ''NoneType''
      | PBool _ \<Rightarrow> ''bool''
      | PInt _ \<Rightarrow> ''int''
      | PFloat _ \<Rightarrow> ''float''
      | PStr _ \<Rightarrow> ''str''
      | PList _ \<Rightarrow> ''list''
      | PDict _ \<Rightarrow> ''dict'')"

definition attribute_error_message :: "string \<Rightarrow> string \<Rightarrow> string" where
  "attribute_error_message tn attr =
     [CHR 0x27] @ tn @ [CHR 0x27] @ '' object has no attribute '' @ [CHR 0x27] @ attr @ [CHR 0x27]"

text \<open>Truth value of a Python object, as \<^verbatim>\<open>or\<close> tests it.\<close>

definition py_truthy :: "pyval \<Rightarrow> bool" where
  "py_truthy v =
     (case v of
        PNone \<Rightarrow> False
      | PBool b \<Rightarrow> b
      | PInt i \<Rightarrow> i \<noteq> 0
      | PFloat r \<Rightarrow> r \<noteq> 0
      | PStr s \<Rightarrow> s \<noteq> []
      | PList xs \<Rightarrow> xs \<noteq> []
      | PDict d \<Rightarrow> d \<noteq> [])"

text \<open>\<^verbatim>\<open>a or b\<close>\<close>

definition py_or :: "pyval \<Rightarrow> pyval \<Rightarrow> pyval" where
  "py_or a b = (if py_truthy a then a else b)"

text \<open>\<^verbatim>\<open>d.get(k, default)\<close> on a dict\<close>

definition dict_get :: "(string \<times> pyval) list \<Rightarrow> string \<Rightarrow> pyval \<Rightarrow> pyval" where
  "dict_get d k dflt = (case map_of d k of None \<Rightarrow> dflt | Some v \<Rightarrow> v)"

text \<open>\<^verbatim>\<open>x.get(k, default)\<close> on any object: only a dict has the method.\<close>

definition py_get :: "pyval \<Rightarrow> string \<Rightarrow> pyval \<Rightarrow> py_error + pyval" where
  "py_get x k dflt =
     (case x of
        PDict d \<Rightarrow> Inr (dict_get d k dflt)
      | _ \<Rightarrow> Inl (AttributeError (type_name x) ''get''))"

definition is_dict :: "pyval \<Rightarrow> bool" where
  "is_dict x = (case x of PDict _ \<Rightarrow> True | _ \<Rightarrow> False)"

definition is_str :: "pyval \<Rightarrow> bool" where
  "is_str x = (case x of PStr _ \<Rightarrow> True | _ \<Rightarrow> False)"

text \<open>\<^verbatim>\<open>s.replace(old, new)\<close> for one-character \<open>old\<close> and \<open>new\<close>\<close>

definition replace_char :: "char \<Rightarrow> char \<Rightarrow> string \<Rightarrow> string" where
  "replace_char old new s = map (\<lambda>c. if c = old then new else c) s"

text \<open>\<^verbatim>\<open>x.replace("\t", " ").replace("\n", " ")\<close>: only a str has the method.\<close>

definition replace_tab_nl :: "pyval \<Rightarrow> py_error + string" where
  "replace_tab_nl x =
     (case x of
        PStr s \<Rightarrow> Inr (replace_char NL CHR '' '' (replace_char TAB CHR '' '' s))
      | _ \<Rightarrow> Inl (AttributeError (type_name x) ''replace''))"

text \<open>\<^verbatim>\<open>sep.join(xs)\<close> on strings\<close>

fun join_str :: "string \<Rightarrow> string list \<Rightarrow> string" where
  "join_str sep [] = []"
| "join_str sep [x] = x"
| "join_str sep (x # y # ys) = x @ sep @ join_str sep (y # ys)"

text \<open>
  \<^verbatim>\<open>sep.join(xs)\<close> on a list of objects: the first item that is not a str raises
  \<^verbatim>\<open>TypeError: sequence item i: expected str instance, ... found\<close>.
\<close>

fun str_items :: "nat \<Rightarrow> pyval list \<Rightarrow> py_error + string list" where
  "str_items i [] = Inr []"
| "str_items i (x # xs) =
     (case x of
        PStr s \<Rightarrow> (case str_items (Suc i) xs of Inl e \<Rightarrow> Inl e | Inr ss \<Rightarrow> Inr (s # ss))
      | _ \<Rightarrow> Inl (TypeError i (type_name x)))"

definition py_join :: "string \<Rightarrow> pyval list \<Rightarrow> py_error + string" where
  "py_join sep xs = (case str_items 0 xs of Inl e \<Rightarrow> Inl e | Inr ss \<Rightarrow> Inr (join_str sep ss))"

section \<open>load_tests\<close>

text \<open>
  \<^verbatim>\<open>str.isspace\<close> on the characters below 256: the characters \<^verbatim>\<open>line.strip()\<close>
  removes.
\<close>

definition py_isspace :: "char \<Rightarrow> bool" where
  "py_isspace c =
     (let n = (of_char c :: nat)
      in (9 \<le> n \<and> n \<le> 13) \<or> (28 \<le> n \<and> n \<le> 32) \<or> n = 133 \<or> n = 160)"

text \<open>\<^verbatim>\<open>if line.strip():\<close> holds when some character of the line is not white space.\<close>

definition non_blank :: "string \<Rightarrow> bool" where
  "non_blank line = list_ex (\<lambda>c. \<not> py_isspace c) line"

text \<open>
  \<^verbatim>\<open>for line in f\<close>: the text of the file, decoded and with its line ends read as
  newlines as text mode does, cut after each newline; every line keeps its newline, and a
  last line without one is a line too.
\<close>

fun split_lines :: "string \<Rightarrow> string \<Rightarrow> string list" where
  "split_lines acc [] = (if acc = [] then [] else [acc])"
| "split_lines acc (c # cs) =
     (if c = NL then (acc @ [c]) # split_lines [] cs else split_lines (acc @ [c]) cs)"

definition file_lines :: "string \<Rightarrow> string list" where
  "file_lines content = split_lines [] content"

text \<open>
  The loop of \<^verbatim>\<open>load_tests\<close>. \<open>loads\<close> is \<^verbatim>\<open>json.loads\<close>, a library function taken
  as a parameter: \<open>None\<close> is its \<^verbatim>\<open>JSONDecodeError\<close>.
\<close>

fun load_lines :: "(string \<Rightarrow> pyval option) \<Rightarrow> pyval list \<Rightarrow> string list \<Rightarrow> py_error + pyval list" where
  "load_lines loads tests [] = Inr tests"
| "load_lines loads tests (line # rest) =
     (if non_blank line
      then (case loads line of
              None \<Rightarrow> Inl JSONDecodeError
            | Some v \<Rightarrow> load_lines loads (tests @ [v]) rest)
      else load_lines loads tests rest)"

text \<open>\<open>fs\<close> maps the path of a readable file to its text.\<close>

definition load_tests :: "(string \<Rightarrow> pyval option) \<Rightarrow> (string \<rightharpoonup> string) \<Rightarrow> string \<Rightarrow> py_error + pyval list" where
  "load_tests loads fs filepath =
     (case fs filepath of
        None \<Rightarrow> Inl FileNotFoundError
      | Some content \<Rightarrow> load_lines loads [] (file_lines content))"

section \<open>query_ollama\<close>

text \<open>
  \<open>post\<close> stands for lines 30 to 43, \<^verbatim>\<open>requests.post(...)\<close> followed by
  \<^verbatim>\<open>response.json()\<close>, for one model id and one prompt: it gives the decoded
  payload, or the exception raised on the way.
\<close>

type_synonym post = "string \<Rightarrow> pyval \<Rightarrow> exn + pyval"

text \<open>\<^verbatim>\<open>data.get("response", "[NO RESPONSE]")\<close> inside the \<^verbatim>\<open>try\<close>\<close>

definition get_response :: "pyval \<Rightarrow> exn + pyval" where
  "get_response data =
     (case py_get data ''response'' (PStr ''[NO RESPONSE]'') of
        Inr v \<Rightarrow> Inr v
      | Inl _ \<Rightarrow> Inl (Exception (attribute_error_message (type_name data) ''get'')))"

definition try_body :: "post \<Rightarrow> string \<Rightarrow> pyval \<Rightarrow> exn + pyval" where
  "try_body post model_id prompt =
     (case post model_id prompt of
        Inl e \<Rightarrow> Inl e
      | Inr data \<Rightarrow> get_response data)"

definition query_ollama :: "post \<Rightarrow> string \<Rightarrow> pyval \<Rightarrow> pyval" where
  "query_ollama post model_id prompt =
     (case try_body post model_id prompt of
        Inr v \<Rightarrow> v
      | Inl Timeout \<Rightarrow> PStr ''[TIMEOUT]''
      | Inl (Exception e) \<Rightarrow> PStr (''[ERROR: '' @ e @ '']''))"

section \<open>run_evaluation\<close>

text \<open>
  \<open>test_result\<close> is the dict built at lines 73 to 78 (keys \<^verbatim>\<open>id\<close>, \<^verbatim>\<open>question\<close>,
  \<^verbatim>\<open>category\<close>, \<^verbatim>\<open>responses\<close>), \<open>evaluation_run\<close> the dict \<^verbatim>\<open>results\<close> (keys
  \<^verbatim>\<open>timestamp\<close>, \<^verbatim>\<open>models\<close>, \<^verbatim>\<open>tests\<close>).
\<close>

record test_result =
  tr_id :: pyval
  tr_question :: pyval
  tr_category :: pyval
  tr_responses :: "(string \<times> pyval) list"

record evaluation_run =
  res_timestamp :: string
  res_models :: "string list"
  res_tests :: "test_result list"

text \<open>
  The two output files of one prefix. The JSON file holds the document that
  \<^verbatim>\<open>json.dump\<close> was given; the CSV file holds the text written to it. \<open>None\<close> is a
  file the run has not opened.
\<close>

record disk =
  json_file :: "evaluation_run option"
  csv_file :: "string option"

record run_state =
  results :: evaluation_run
  files :: disk
  current :: nat

text \<open>
  The network during a run: \<open>backend k\<close> answers the \<open>k\<close>-th query, \<open>k\<close> being the
  counter \<^verbatim>\<open>current\<close> of the source.
\<close>

type_synonym backend = "nat \<Rightarrow> post"

text \<open>Lines 73 to 78.\<close>

definition make_test_result :: "pyval \<Rightarrow> py_error + test_result" where
  "make_test_result test =
     (case test of
        PDict d \<Rightarrow>
          Inr \<lparr> tr_id = dict_get d ''id'' (PStr ''unknown''),
                tr_question = py_or (dict_get d ''question'' PNone) (dict_get d ''q'' PNone),
                tr_category = dict_get d ''category'' (PStr ''general''),
                tr_responses = [] \<rparr>
      | _ \<Rightarrow> Inl (AttributeError (type_name test) ''get''))"

text \<open>Lines 80 to 86: the loop over the models, on the counter and the responses dict.\<close>

fun query_models ::
  "backend \<Rightarrow> pyval \<Rightarrow> (string \<times> string) list \<Rightarrow> nat \<Rightarrow> (string \<times> pyval) list
   \<Rightarrow> nat \<times> (string \<times> pyval) list" where
  "query_models be q [] cur resps = (cur, resps)"
| "query_models be q ((model_name, model_id) # ms) cur resps =
     query_models be q ms (Suc cur)
       (AList.update model_name (query_ollama (be (Suc cur)) model_id q) resps)"

text \<open>Lines 73 to 86: one bundle, with the counter after it.\<close>

definition build_bundle ::
  "backend \<Rightarrow> (string \<times> string) list \<Rightarrow> nat \<Rightarrow> pyval \<Rightarrow> py_error + (nat \<times> test_result)" where
  "build_bundle be models cur test =
     (case make_test_result test of
        Inl e \<Rightarrow> Inl e
      | Inr tr \<Rightarrow>
          (case query_models be (tr_question tr) models cur (tr_responses tr) of
             (cur', resps) \<Rightarrow> Inr (cur', tr\<lparr>tr_responses := resps\<rparr>)))"

text \<open>Lines 73 to 91: one turn of the loop over the tests.\<close>

definition process_test ::
  "backend \<Rightarrow> (string \<times> string) list \<Rightarrow> run_state \<Rightarrow> pyval \<Rightarrow> py_error + run_state" where
  "process_test be models st test =
     (case build_bundle be models (current st) test of
        Inl e \<Rightarrow> Inl e
      | Inr (cur', tr) \<Rightarrow>
          (let res' = (results st)\<lparr>res_tests := res_tests (results st) @ [tr]\<rparr>
           in Inr \<lparr> results = res',
                    files = (files st)\<lparr>json_file := Some res'\<rparr>,
                    current = cur' \<rparr>))"

text \<open>
  Lines 72 to 93. The state is returned also when a turn raises: the files keep what
  was written before.
\<close>

fun run_tests ::
  "backend \<Rightarrow> (string \<times> string) list \<Rightarrow> run_state \<Rightarrow> pyval list \<Rightarrow> run_state \<times> py_error option" where
  "run_tests be models st [] = (st, None)"
| "run_tests be models st (test # rest) =
     (case process_test be models st test of
        Inl e \<Rightarrow> (st, Some e)
      | Inr st' \<Rightarrow> run_tests be models st' rest)"

text \<open>Lines 112 to 115: the response cells of one row.\<close>

definition response_cell :: "(string \<times> pyval) list \<Rightarrow> string \<Rightarrow> py_error + string" where
  "response_cell resps name =
     (case replace_tab_nl (dict_get resps name (PStr [])) of
        Inl e \<Rightarrow> Inl e
      | Inr s \<Rightarrow> Inr (take 500 s))"

fun response_cells :: "(string \<times> pyval) list \<Rightarrow> string list \<Rightarrow> py_error + string list" where
  "response_cells resps [] = Inr []"
| "response_cells resps (name # names) =
     (case response_cell resps name of
        Inl e \<Rightarrow> Inl e
      | Inr c \<Rightarrow>
          (case response_cells resps names of
             Inl e \<Rightarrow> Inl e
           | Inr cs \<Rightarrow> Inr (c # cs)))"

text \<open>Lines 106 to 115: the list \<^verbatim>\<open>row\<close>.\<close>

definition row_cells :: "string list \<Rightarrow> test_result \<Rightarrow> py_error + pyval list" where
  "row_cells model_names t =
     (case replace_tab_nl (tr_question t) of
        Inl e \<Rightarrow> Inl e
      | Inr q \<Rightarrow>
          (case response_cells (tr_responses t) model_names of
             Inl e \<Rightarrow> Inl e
           | Inr cs \<Rightarrow> Inr ([tr_id t, tr_category t, PStr q] @ map PStr cs)))"

text \<open>Lines 106 to 117: the text written for one bundle.\<close>

definition csv_row :: "string list \<Rightarrow> test_result \<Rightarrow> py_error + string" where
  "csv_row model_names t =
     (case row_cells model_names t of
        Inl e \<Rightarrow> Inl e
      | Inr row \<Rightarrow>
          (case py_join [TAB] row of
             Inl e \<Rightarrow> Inl e
           | Inr line \<Rightarrow> Inr (line @ [NL])))"

text \<open>
  Lines 105 to 117, on the text written so far. When a row raises, the \<^verbatim>\<open>with\<close>
  block closes the file, which keeps the rows before it.
\<close>

fun write_rows :: "string list \<Rightarrow> string \<Rightarrow> test_result list \<Rightarrow> string \<times> py_error option" where
  "write_rows model_names f [] = (f, None)"
| "write_rows model_names f (t # ts) =
     (case csv_row model_names t of
        Inl e \<Rightarrow> (f, Some e)
      | Inr line \<Rightarrow> write_rows model_names (f @ line) ts)"

text \<open>Lines 101 and 102.\<close>

definition header_line :: "string list \<Rightarrow> string" where
  "header_line model_names =
     join_str [TAB] ([''ID'', ''Category'', ''Question''] @ model_names) @ [NL]"

text \<open>Lines 97 to 117.\<close>

definition write_csv :: "string list \<Rightarrow> test_result list \<Rightarrow> string \<times> py_error option" where
  "write_csv model_names ts = write_rows model_names (header_line model_names) ts"

text \<open>
  \<^verbatim>\<open>run_evaluation\<close>, without its printing. \<open>now\<close> is \<^verbatim>\<open>datetime.now().isoformat()\<close>,
  \<open>d0\<close> the two files before the run; \<open>initial_state\<close> is lines 63 to 70. The result
  is the files after the run, with the returned \<^verbatim>\<open>results\<close> or the exception that ended
  the run.
\<close>

definition initial_state :: "string \<Rightarrow> (string \<times> string) list \<Rightarrow> disk \<Rightarrow> run_state" where
  "initial_state now models d0 =
     \<lparr> results = \<lparr> res_timestamp = now, res_models = map fst models, res_tests = [] \<rparr>,
       files = d0,
       current = 0 \<rparr>"

definition run_evaluation ::
  "backend \<Rightarrow> string \<Rightarrow> pyval list \<Rightarrow> (string \<times> string) list \<Rightarrow> disk
   \<Rightarrow> disk \<times> (py_error + evaluation_run)" where
  "run_evaluation be now tests models d0 =
     (case run_tests be models (initial_state now models d0) tests of
        (st, Some e) \<Rightarrow> (files st, Inl e)
      | (st, None) \<Rightarrow>
          (let model_names = map fst models
           in case write_csv model_names (res_tests (results st)) of
                (text, Some e) \<Rightarrow> ((files st)\<lparr>csv_file := Some text\<rparr>, Inl e)
              | (text, None) \<Rightarrow> ((files st)\<lparr>csv_file := Some text\<rparr>, Inr (results st))))"

section \<open>main\<close>

definition NORWEGIAN_MODELS :: "(string \<times> string) list" where
  "NORWEGIAN_MODELS =
     [(''NB-Llama-3.2-3B'', ''hf.co/NbAiLab/nb-llama-3.2-3B-Q4_K_M-GGUF:latest'')]"

definition INTERNATIONAL_MODELS :: "(string \<times> string) list" where
  "INTERNATIONAL_MODELS =
     [(''Llama-3.2-3B'', ''llama3.2:3b''),
      (''Mistral-7B'', ''mistral:7b''),
      (''Llama-3.1-8B'', ''llama3.1:8b'')]"

text \<open>Lines 166 to 171.\<close>

definition select_models :: "bool \<Rightarrow> bool \<Rightarrow> (string \<times> string) list" where
  "select_models norwegian_only international_only =
     (if norwegian_only then NORWEGIAN_MODELS
      else if international_only then INTERNATIONAL_MODELS
      else NORWEGIAN_MODELS @ INTERNATIONAL_MODELS)"

record args =
  tests_path :: string
  norwegian_only :: bool
  international_only :: bool

text \<open>Lines 163 to 175; the output prefix names the two files of \<open>d0\<close>.\<close>

definition main ::
  "(string \<Rightarrow> pyval option) \<Rightarrow> (string \<rightharpoonup> string) \<Rightarrow> backend \<Rightarrow> string \<Rightarrow> args \<Rightarrow> disk
   \<Rightarrow> disk \<times> (py_error + evaluation_run)" where
  "main loads fs be now a d0 =
     (let models = select_models (norwegian_only a) (international_only a)
      in case load_tests loads fs (tests_path a) of
           Inl e \<Rightarrow> (d0, Inl e)
         | Inr tests \<Rightarrow> run_evaluation be now tests models d0)"

section \<open>Example inputs\<close>

text \<open>
  A stand-in for \<^verbatim>\<open>json.loads\<close> on the three lines the example files need, and two
  files: one with two records around two blank lines, one with a line that does not
  parse.
\<close>

definition example_loads :: "string \<Rightarrow> pyval option" where
  "example_loads line =
     (if line = ''{\"id\": \"t1\"}'' @ [NL] then Some (PDict [(''id'', PStr ''t1'')])
      else if line = ''{}'' then Some (PDict [])
      else None)"

definition example_file :: string where
  "example_file = ''{\"id\": \"t1\"}'' @ [NL] @ '' '' @ [TAB, NL] @ [NL] @ ''{}''"

definition example_bad_file :: string where
  "example_bad_file = ''{\"id\": \"t1\"}'' @ [NL] @ ''{oops'' @ [NL] @ ''{}''"

definition example_fs :: "string \<rightharpoonup> string" where
  "example_fs = [''tests.jsonl'' \<mapsto> example_file, ''bad.jsonl'' \<mapsto> example_bad_file]"

text \<open>Replies of the backend, one for each outcome of a query.\<close>

definition timeout_post :: post where
  "timeout_post model_id prompt = Inl Timeout"

definition refused_post :: post where
  "refused_post model_id prompt = Inl (Exception ''refused'')"

definition oslo_post :: post where
  "oslo_post model_id prompt = Inr (PDict [(''model'', PStr model_id), (''response'', PStr ''Oslo'')])"

definition error_payload_post :: post where
  "error_payload_post model_id prompt = Inr (PDict [(''error'', PStr ''model not found'')])"

definition list_payload_post :: post where
  "list_payload_post model_id prompt = Inr (PList [])"

definition null_response_post :: post where
  "null_response_post model_id prompt = Inr (PDict [(''response'', PNone)])"

section \<open>Conditions on inputs\<close>

text \<open>
  A reply of the backend whose \<^verbatim>\<open>response\<close> field, when there is one, holds text, as
  the interface of the backend says.
\<close>

definition text_reply :: "exn + pyval \<Rightarrow> bool" where
  "text_reply r =
     (case r of
        Inr (PDict d) \<Rightarrow> (case map_of d ''response'' of Some v \<Rightarrow> is_str v | None \<Rightarrow> True)
      | _ \<Rightarrow> True)"

text \<open>
  The run of the spec's example: models A and B, a backend that answers \<^verbatim>\<open>Oslo\<close> for
  \<^verbatim>\<open>a-id\<close> and refuses the connection for any other model, and no output file yet.
\<close>

definition example_models :: "(string \<times> string) list" where
  "example_models = [(''A'', ''a-id''), (''B'', ''b-id'')]"

definition example_backend :: backend where
  "example_backend k model_id prompt =
     (if model_id = ''a-id'' then Inr (PDict [(''response'', PStr ''Oslo'')])
      else Inl (Exception ''refused''))"

definition example_now :: string where
  "example_now = ''2024-05-01T12:00:00''"

definition empty_disk :: disk where
  "empty_disk = \<lparr>json_file = None, csv_file = None\<rparr>"

definition example_state :: run_state where
  "example_state = initial_state example_now example_models empty_disk"

text \<open>Records: one with the alias \<^verbatim>\<open>q\<close> only, one with every field, one with an empty question.\<close>

definition alias_record :: "(string \<times> pyval) list" where
  "alias_record = [(''q'', PStr ''Hva er 2 + 2?'')]"

definition full_record :: "(string \<times> pyval) list" where
  "full_record = [(''id'', PStr ''t1''), (''question'', PStr ''Hva er hovedstaden i Norge?''),
                  (''q'', PStr ''ignored''), (''category'', PStr ''geo'')]"

definition empty_question_record :: "(string \<times> pyval) list" where
  "empty_question_record = [(''id'', PStr ''t3''), (''question'', PStr []), (''q'', PStr ''Hvem?'')]"

text \<open>Three loaded lines, the last of which is a JSON array: the run stops at it.\<close>

definition crash_tests :: "pyval list" where
  "crash_tests = [PDict full_record, PDict alias_record, PList []]"

text \<open>A text with every tab and every newline replaced by one space.\<close>

definition spaced :: "string \<Rightarrow> string" where
  "spaced s = map (\<lambda>c. if c = TAB \<or> c = NL then CHR '' '' else c) s"

text \<open>The test case of the spec's example, and the row the spec gives for it.\<close>

definition spec_record :: "(string \<times> pyval) list" where
  "spec_record = [(''id'', PStr ''t1''), (''question'', PStr ''Hva er hovedstaden i Norge?''),
                  (''category'', PStr ''geo'')]"

definition spec_header :: string where
  "spec_header = ''ID'' @ [TAB] @ ''Category'' @ [TAB] @ ''Question'' @ [TAB] @ ''A'' @ [TAB] @ ''B''"

definition spec_row :: string where
  "spec_row = ''t1'' @ [TAB] @ ''geo'' @ [TAB] @ ''Hva er hovedstaden i Norge?'' @ [TAB] @
              ''Oslo'' @ [TAB] @ ''[ERROR: refused]''"

text \<open>A record whose id holds a tab and whose category holds a newline.\<close>

definition tab_id_record :: "(string \<times> pyval) list" where
  "tab_id_record = [(''id'', PStr (''t'' @ [TAB] @ ''1'')),
                    (''question'', PStr ''Hva er hovedstaden i Norge?''),
                    (''category'', PStr (''geo'' @ [NL] @ ''x''))]"

text \<open>The bundle of the spec's test case when there is no model, and the run that holds it.\<close>

definition bare_bundle :: test_result where
  "bare_bundle = \<lparr> tr_id = PStr ''t1'', tr_question = PStr ''Hva er hovedstaden i Norge?'',
                    tr_category = PStr ''geo'', tr_responses = [] \<rparr>"

definition bare_run :: evaluation_run where
  "bare_run = \<lparr> res_timestamp = example_now, res_models = [], res_tests = [bare_bundle] \<rparr>"

text \<open>A record with neither a question nor the alias, between two records that have one.\<close>

definition no_question_record :: "(string \<times> pyval) list" where
  "no_question_record = [(''id'', PStr ''t2''), (''category'', PStr ''geo'')]"

definition no_question_bundle :: test_result where
  "no_question_bundle =
     \<lparr> tr_id = PStr ''t2'', tr_question = PNone, tr_category = PStr ''geo'',
       tr_responses = [(''A'', PStr ''Oslo''), (''B'', PStr ''[ERROR: refused]'')] \<rparr>"

definition spec_bundle :: test_result where
  "spec_bundle =
     \<lparr> tr_id = PStr ''t1'', tr_question = PStr ''Hva er hovedstaden i Norge?'',
       tr_category = PStr ''geo'',
       tr_responses = [(''A'', PStr ''Oslo''), (''B'', PStr ''[ERROR: refused]'')] \<rparr>"

text \<open>Two models under one display name.\<close>

definition twin_models :: "(string \<times> string) list" where
  "twin_models = [(''A'', ''a-id''), (''A'', ''b-id'')]"

text \<open>A backend whose every reply is the payload \<^verbatim>\<open>{"response": null}\<close>.\<close>

definition null_backend :: backend where
  "null_backend k = null_response_post"

definition null_bundle :: test_result where
  "null_bundle =
     \<lparr> tr_id = PStr ''t1'', tr_question = PStr ''Hva er hovedstaden i Norge?'',
       tr_category = PStr ''geo'', tr_responses = [(''A'', PNone), (''B'', PNone)] \<rparr>"

definition twin_bundle :: test_result where
  "twin_bundle =
     \<lparr> tr_id = PStr ''t1'', tr_question = PStr ''Hva er hovedstaden i Norge?'',
       tr_category = PStr ''geo'', tr_responses = [(''A'', PStr ''[ERROR: refused]'')] \<rparr>"

text \<open>
  A response with a tab, a newline and more than 500 characters, a backend that gives it
  to every query, and a record whose question holds a tab and a newline.
\<close>

definition long_response :: string where
  "long_response = ''a'' @ [TAB] @ ''b'' @ [NL] @ replicate 600 CHR ''x''"

definition long_backend :: backend where
  "long_backend k model_id prompt = Inr (PDict [(''response'', PStr long_response)])"

definition tab_question_record :: "(string \<times> pyval) list" where
  "tab_question_record = [(''id'', PStr ''t9''), (''q'', PStr (''Hva'' @ [TAB] @ ''er'' @ [NL] @ ''det?''))]"

section \<open>Run configuration\<close>

text \<open>
  C6. The model list depends on the two flags only: with \<^verbatim>\<open>--norwegian-only\<close> it is the
  Norwegian group, whatever the other flag is, so that the Norwegian group wins when both
  are set; with \<^verbatim>\<open>--international-only\<close> alone it is the International group; with
  neither it is the Norwegian group followed by the International group.
\<close>

theorem select_models_by_flags:
  "select_models True b = NORWEGIAN_MODELS \<and>
   select_models True True = NORWEGIAN_MODELS \<and>
   select_models False True = INTERNATIONAL_MODELS \<and>
   select_models False False = NORWEGIAN_MODELS @ INTERNATIONAL_MODELS"
  by (simp add: select_models_def)

section \<open>Test loader\<close>

lemma concat_split_lines: "concat (split_lines acc cs) = acc @ cs"
  by (induction cs arbitrary: acc) auto

lemma concat_file_lines: "concat (file_lines content) = content"
  by (simp add: file_lines_def concat_split_lines)

lemma load_lines_all_parse:
  "\<forall>l \<in> set (filter non_blank ls). loads l \<noteq> None \<Longrightarrow>
   \<exists>recs. load_lines loads acc ls = Inr (acc @ recs) \<and>
          map Some recs = map loads (filter non_blank ls)"
proof (induction ls arbitrary: acc)
  case Nil
  then show ?case by simp
next
  case (Cons l ls)
  show ?case
  proof (cases "non_blank l")
    case False
    with Cons show ?thesis by simp
  next
    case True
    with Cons.prems obtain v where v: "loads l = Some v" by auto
    from Cons.prems have "\<forall>l \<in> set (filter non_blank ls). loads l \<noteq> None" by simp
    from Cons.IH [OF this, of "acc @ [v]"] obtain recs where
      "load_lines loads (acc @ [v]) ls = Inr ((acc @ [v]) @ recs)"
      "map Some recs = map loads (filter non_blank ls)" by blast
    with True v have "load_lines loads acc (l # ls) = Inr (acc @ (v # recs)) \<and>
          map Some (v # recs) = map loads (filter non_blank (l # ls))" by simp
    then show ?thesis by blast
  qed
qed

lemma load_lines_bad_line:
  "\<exists>l \<in> set (filter non_blank ls). loads l = None \<Longrightarrow> load_lines loads acc ls = Inl JSONDecodeError"
proof (induction ls arbitrary: acc)
  case Nil
  then show ?case by simp
next
  case (Cons l ls)
  show ?case
  proof (cases "non_blank l \<and> loads l = None")
    case True
    then show ?thesis by simp
  next
    case False
    with Cons.prems have "\<exists>l \<in> set (filter non_blank ls). loads l = None"
      by (auto split: if_splits)
    from Cons.IH [OF this] show ?thesis by (simp split: option.splits)
  qed
qed

text \<open>
  C7. For a readable file, when every non-blank line parses, \<^verbatim>\<open>load_tests\<close> returns
  one record for each non-blank line, in the order of the file: the records are the
  parses of the non-blank lines, so the blank lines leave no trace. When some non-blank
  line does not parse, it raises the parse error and returns no record.
\<close>

theorem load_tests_records:
  assumes "fs filepath = Some content"
  shows "((\<forall>l \<in> set (filter non_blank (file_lines content)). loads l \<noteq> None) \<longrightarrow>
            (\<exists>recs. load_tests loads fs filepath = Inr recs \<and>
                    length recs = length (filter non_blank (file_lines content)) \<and>
                    map Some recs = map loads (filter non_blank (file_lines content)))) \<and>
         ((\<exists>l \<in> set (filter non_blank (file_lines content)). loads l = None) \<longrightarrow>
            load_tests loads fs filepath = Inl JSONDecodeError)"
proof (intro conjI impI)
  assume "\<forall>l \<in> set (filter non_blank (file_lines content)). loads l \<noteq> None"
  from load_lines_all_parse [OF this, of "[]"] obtain recs where
    r: "load_lines loads [] (file_lines content) = Inr recs"
       "map Some recs = map loads (filter non_blank (file_lines content))" by auto
  from r(2) have "length (map Some recs) = length (map loads (filter non_blank (file_lines content)))"
    by simp
  then have "length recs = length (filter non_blank (file_lines content))" by simp
  with r assms show "\<exists>recs. load_tests loads fs filepath = Inr recs \<and>
                    length recs = length (filter non_blank (file_lines content)) \<and>
                    map Some recs = map loads (filter non_blank (file_lines content))"
    by (simp add: load_tests_def)
next
  assume "\<exists>l \<in> set (filter non_blank (file_lines content)). loads l = None"
  from load_lines_bad_line [OF this] assms
  show "load_tests loads fs filepath = Inl JSONDecodeError"
    by (simp add: load_tests_def)
qed

lemma example_file_lines:
  "file_lines example_file = [''{\"id\": \"t1\"}'' @ [NL], '' '' @ [TAB, NL], [NL], ''{}'']"
  by (simp add: file_lines_def example_file_def NL_def TAB_def)

lemma example_non_blank: "filter non_blank (file_lines example_file) = [''{\"id\": \"t1\"}'' @ [NL], ''{}'']"
  by (simp add: example_file_lines non_blank_def py_isspace_def NL_def TAB_def)

lemma example_bad_lines:
  "filter non_blank (file_lines example_bad_file) = [''{\"id\": \"t1\"}'' @ [NL], ''{oops'' @ [NL], ''{}'']"
  by (simp add: file_lines_def example_bad_file_def non_blank_def py_isspace_def NL_def TAB_def)

theorem load_tests_records_witness:
  "load_tests example_loads example_fs ''tests.jsonl'' = Inr [PDict [(''id'', PStr ''t1'')], PDict []] \<and>
   load_tests example_loads example_fs ''bad.jsonl'' = Inl JSONDecodeError"
proof
  have f: "example_fs ''tests.jsonl'' = Some example_file" by (simp add: example_fs_def)
  have "\<forall>l \<in> set (filter non_blank (file_lines example_file)). example_loads l \<noteq> None"
    by (simp add: example_non_blank example_loads_def NL_def)
  with load_tests_records [of example_fs "''tests.jsonl''" example_file example_loads] f obtain recs where
    "load_tests example_loads example_fs ''tests.jsonl'' = Inr recs"
    "map Some recs = map example_loads (filter non_blank (file_lines example_file))" by blast
  then show "load_tests example_loads example_fs ''tests.jsonl'' = Inr [PDict [(''id'', PStr ''t1'')], PDict []]"
    by (auto simp add: example_non_blank example_loads_def NL_def)
next
  have f: "example_fs ''bad.jsonl'' = Some example_bad_file" by (simp add: example_fs_def)
  have "\<exists>l \<in> set (filter non_blank (file_lines example_bad_file)). example_loads l = None"
    by (simp add: example_bad_lines example_loads_def NL_def)
  with load_tests_records [of example_fs "''bad.jsonl''" example_bad_file example_loads] f
  show "load_tests example_loads example_fs ''bad.jsonl'' = Inl JSONDecodeError" by blast
qed

section \<open>Inference client\<close>

lemma query_ollama_timeout:
  "post model_id prompt = Inl Timeout \<Longrightarrow> query_ollama post model_id prompt = PStr ''[TIMEOUT]''"
  by (simp add: query_ollama_def try_body_def)

lemma query_ollama_exception:
  "post model_id prompt = Inl (Exception e) \<Longrightarrow>
   query_ollama post model_id prompt = PStr (''[ERROR: '' @ e @ '']'')"
  by (simp add: query_ollama_def try_body_def)

lemma query_ollama_not_dict:
  "post model_id prompt = Inr data \<Longrightarrow> \<not> is_dict data \<Longrightarrow>
   query_ollama post model_id prompt =
     PStr (''[ERROR: '' @ attribute_error_message (type_name data) ''get'' @ '']'')"
  by (cases data) (simp_all add: query_ollama_def try_body_def get_response_def py_get_def is_dict_def)

lemma query_ollama_dict:
  "post model_id prompt = Inr (PDict d) \<Longrightarrow>
   query_ollama post model_id prompt = dict_get d ''response'' (PStr ''[NO RESPONSE]'')"
  by (simp add: query_ollama_def try_body_def get_response_def py_get_def)

lemma query_ollama_is_str:
  assumes "text_reply (post model_id prompt)"
  shows "is_str (query_ollama post model_id prompt)"
proof (cases "post model_id prompt")
  case (Inl e)
  then show ?thesis
    by (cases e) (simp_all add: query_ollama_timeout query_ollama_exception is_str_def)
next
  case (Inr data)
  show ?thesis
  proof (cases "is_dict data")
    case False
    with Inr show ?thesis by (simp add: query_ollama_not_dict is_str_def)
  next
    case True
    then obtain d where d: "data = PDict d" by (cases data) (simp_all add: is_dict_def)
    with Inr assms show ?thesis
      by (simp add: query_ollama_dict dict_get_def text_reply_def is_str_def split: option.splits)
  qed
qed

text \<open>
  The outcomes of \<^verbatim>\<open>query_ollama\<close>, one for each reply of the backend: \<^verbatim>\<open>[TIMEOUT]\<close> on
  a timeout, \<^verbatim>\<open>[ERROR: ...]\<close> with the text of any other exception, also of the one
  raised on a payload that is not an object, \<^verbatim>\<open>[NO RESPONSE]\<close> on an object without a
  \<^verbatim>\<open>response\<close> field, and otherwise the value of the \<^verbatim>\<open>response\<close> field. The value
  returned is a string whenever the \<^verbatim>\<open>response\<close> field, if present, holds a string.
\<close>

theorem query_ollama_outcomes:
  "(post model_id prompt = Inl Timeout \<longrightarrow>
      query_ollama post model_id prompt = PStr ''[TIMEOUT]'') \<and>
   (\<forall>e. post model_id prompt = Inl (Exception e) \<longrightarrow>
      query_ollama post model_id prompt = PStr (''[ERROR: '' @ e @ '']'')) \<and>
   (\<forall>data. post model_id prompt = Inr data \<longrightarrow> \<not> is_dict data \<longrightarrow>
      query_ollama post model_id prompt =
        PStr (''[ERROR: '' @ attribute_error_message (type_name data) ''get'' @ '']'')) \<and>
   (\<forall>d. post model_id prompt = Inr (PDict d) \<longrightarrow> map_of d ''response'' = None \<longrightarrow>
      query_ollama post model_id prompt = PStr ''[NO RESPONSE]'') \<and>
   (\<forall>d v. post model_id prompt = Inr (PDict d) \<longrightarrow> map_of d ''response'' = Some v \<longrightarrow>
      query_ollama post model_id prompt = v) \<and>
   (text_reply (post model_id prompt) \<longrightarrow> is_str (query_ollama post model_id prompt))"
  by (simp add: query_ollama_timeout query_ollama_exception query_ollama_not_dict
      query_ollama_dict dict_get_def query_ollama_is_str)

theorem query_ollama_outcomes_witness:
  "query_ollama timeout_post ''llama3.2:3b'' (PStr ''Hei'') = PStr ''[TIMEOUT]'' \<and>
   query_ollama refused_post ''llama3.2:3b'' (PStr ''Hei'') = PStr ''[ERROR: refused]'' \<and>
   query_ollama list_payload_post ''llama3.2:3b'' (PStr ''Hei'') =
     PStr (''[ERROR: '' @ [CHR 0x27] @ ''list'' @ [CHR 0x27] @ '' object has no attribute '' @
           [CHR 0x27] @ ''get'' @ [CHR 0x27] @ '']'') \<and>
   query_ollama error_payload_post ''llama3.2:3b'' (PStr ''Hei'') = PStr ''[NO RESPONSE]'' \<and>
   query_ollama oslo_post ''llama3.2:3b'' (PStr ''Hei'') = PStr ''Oslo'' \<and>
   is_str (query_ollama oslo_post ''llama3.2:3b'' (PStr ''Hei''))"
  using query_ollama_outcomes [of timeout_post "''llama3.2:3b''" "PStr ''Hei''"]
    query_ollama_outcomes [of refused_post "''llama3.2:3b''" "PStr ''Hei''"]
    query_ollama_outcomes [of list_payload_post "''llama3.2:3b''" "PStr ''Hei''"]
    query_ollama_outcomes [of error_payload_post "''llama3.2:3b''" "PStr ''Hei''"]
    query_ollama_outcomes [of oslo_post "''llama3.2:3b''" "PStr ''Hei''"]
  by (simp add: timeout_post_def refused_post_def list_payload_post_def error_payload_post_def
      oslo_post_def is_dict_def type_name_def attribute_error_message_def text_reply_def is_str_def)

text \<open>
  C2 does not hold of a payload whose \<^verbatim>\<open>response\<close> field is not text. The function is
  declared to return a \<^verbatim>\<open>str\<close>, and its other paths do: the default of line 44 and
  the returns of line 46 and line 48. For the payload \<^verbatim>\<open>{"response": null}\<close> line 44
  returns \<^verbatim>\<open>None\<close>.
\<close>

theorem query_ollama_null_response:
  "query_ollama null_response_post ''llama3.2:3b'' (PStr ''Hei'') = PNone \<and>
   \<not> is_str (query_ollama null_response_post ''llama3.2:3b'' (PStr ''Hei''))"
  by (simp add: query_ollama_def try_body_def get_response_def py_get_def dict_get_def
      null_response_post_def is_str_def)

section \<open>Evaluation driver\<close>

subsection \<open>The loop over the models\<close>

lemma query_models_counter: "fst (query_models be q ms cur r) = cur + length ms"
  by (induction be q ms cur r rule: query_models.induct) simp_all

lemma query_models_keys:
  "fst ` set (snd (query_models be q ms cur r)) = fst ` set r \<union> fst ` set ms"
  by (induction be q ms cur r rule: query_models.induct) (simp_all add: dom_update)

lemma query_models_distinct:
  "distinct (map fst r) \<Longrightarrow> distinct (map fst (snd (query_models be q ms cur r)))"
  by (induction be q ms cur r rule: query_models.induct) (simp_all add: distinct_update)

lemma query_models_other:
  "n \<notin> fst ` set ms \<Longrightarrow> map_of (snd (query_models be q ms cur r)) n = map_of r n"
  by (induction be q ms cur r rule: query_models.induct) (auto simp add: update_conv')

lemma query_models_append:
  "query_models be q (xs @ ys) cur r =
     query_models be q ys (cur + length xs) (snd (query_models be q xs cur r))"
  by (induction be q xs cur r rule: query_models.induct) simp_all

lemma query_models_last:
  assumes "n \<notin> fst ` set ms2"
  shows "map_of (snd (query_models be q (ms1 @ (n, mid) # ms2) cur r)) n =
         Some (query_ollama (be (Suc (cur + length ms1))) mid q)"
  using assms by (simp add: query_models_append query_models_other update_conv')

subsection \<open>One bundle\<close>

lemma make_test_result_dict:
  "make_test_result (PDict d) =
     Inr \<lparr> tr_id = dict_get d ''id'' (PStr ''unknown''),
           tr_question = py_or (dict_get d ''question'' PNone) (dict_get d ''q'' PNone),
           tr_category = dict_get d ''category'' (PStr ''general''),
           tr_responses = [] \<rparr>"
  by (simp add: make_test_result_def)

lemma make_test_result_not_dict:
  "\<not> is_dict t \<Longrightarrow> make_test_result t = Inl (AttributeError (type_name t) ''get'')"
  by (cases t) (simp_all add: make_test_result_def is_dict_def)

lemma build_bundle_dict:
  "build_bundle be ms cur (PDict d) =
     Inr (cur + length ms,
          \<lparr> tr_id = dict_get d ''id'' (PStr ''unknown''),
            tr_question = py_or (dict_get d ''question'' PNone) (dict_get d ''q'' PNone),
            tr_category = dict_get d ''category'' (PStr ''general''),
            tr_responses =
              snd (query_models be (py_or (dict_get d ''question'' PNone) (dict_get d ''q'' PNone))
                     ms cur []) \<rparr>)"
proof -
  let ?q = "py_or (dict_get d ''question'' PNone) (dict_get d ''q'' PNone)"
  obtain c r where cr: "query_models be ?q ms cur [] = (c, r)" by (cases "query_models be ?q ms cur []")
  with query_models_counter [of be ?q ms cur "[]"] have "c = cur + length ms" by simp
  with cr show ?thesis by (simp add: build_bundle_def make_test_result_dict)
qed

lemma build_bundle_not_dict:
  "\<not> is_dict t \<Longrightarrow> build_bundle be ms cur t = Inl (AttributeError (type_name t) ''get'')"
  by (simp add: build_bundle_def make_test_result_not_dict)

lemma build_bundle_is_dict:
  assumes "is_dict t"
  shows "\<exists>tr. build_bundle be ms cur t = Inr (cur + length ms, tr)"
proof -
  from assms obtain d where "t = PDict d" by (cases t) (simp_all add: is_dict_def)
  then show ?thesis by (simp add: build_bundle_dict)
qed

lemma build_bundle_keys:
  assumes "build_bundle be ms cur t = Inr (c, tr)"
  shows "fst ` set (tr_responses tr) = fst ` set ms \<and> distinct (map fst (tr_responses tr))"
proof (cases "is_dict t")
  case False
  with assms show ?thesis by (simp add: build_bundle_not_dict)
next
  case True
  then obtain d where "t = PDict d" by (cases t) (simp_all add: is_dict_def)
  with assms have "tr_responses tr =
      snd (query_models be (py_or (dict_get d ''question'' PNone) (dict_get d ''q'' PNone)) ms cur [])"
    by (auto simp add: build_bundle_dict)
  then show ?thesis by (simp add: query_models_keys query_models_distinct)
qed

lemma build_bundle_fields:
  assumes "build_bundle be ms cur t = Inr (c, tr)"
  shows "make_test_result t = Inr (tr\<lparr>tr_responses := []\<rparr>)"
proof (cases "is_dict t")
  case False
  with assms show ?thesis by (simp add: build_bundle_not_dict)
next
  case True
  then obtain d where "t = PDict d" by (cases t) (simp_all add: is_dict_def)
  with assms show ?thesis by (auto simp add: build_bundle_dict make_test_result_dict)
qed

subsection \<open>The loop over the tests\<close>

lemma process_test_bundle:
  "build_bundle be ms cur t = Inr (c, tr) \<Longrightarrow>
   process_test be ms \<lparr>results = res, files = d, current = cur\<rparr> t =
     Inr \<lparr> results = res\<lparr>res_tests := res_tests res @ [tr]\<rparr>,
           files = d\<lparr>json_file := Some (res\<lparr>res_tests := res_tests res @ [tr]\<rparr>)\<rparr>,
           current = c \<rparr>"
  by (simp add: process_test_def Let_def)

lemma process_test_error:
  "build_bundle be ms (current st) t = Inl e \<Longrightarrow> process_test be ms st t = Inl e"
  by (simp add: process_test_def)

lemma run_tests_append:
  "run_tests be ms st (xs @ ys) =
     (case run_tests be ms st xs of
        (st', None) \<Rightarrow> run_tests be ms st' ys
      | (st', Some e) \<Rightarrow> (st', Some e))"
  by (induction xs arbitrary: st) (simp_all split: sum.splits)

lemma run_tests_dicts:
  assumes "\<forall>t \<in> set xs. is_dict t"
  shows "\<exists>bs. length bs = length xs \<and>
           (\<forall>i < length xs. build_bundle be ms (cur + i * length ms) (xs ! i) =
                               Inr (cur + Suc i * length ms, bs ! i)) \<and>
           run_tests be ms \<lparr>results = res, files = d, current = cur\<rparr> xs =
             (\<lparr> results = res\<lparr>res_tests := res_tests res @ bs\<rparr>,
                files = (if xs = [] then d
                         else d\<lparr>json_file := Some (res\<lparr>res_tests := res_tests res @ bs\<rparr>)\<rparr>),
                current = cur + length xs * length ms \<rparr>, None)"
  using assms
proof (induction xs arbitrary: res d cur)
  case Nil
  then show ?case by simp
next
  case (Cons x xs)
  from Cons.prems have "is_dict x" by simp
  from build_bundle_is_dict [OF this] obtain tr where
    tr: "build_bundle be ms cur x = Inr (cur + length ms, tr)" by blast
  let ?res = "res\<lparr>res_tests := res_tests res @ [tr]\<rparr>"
  let ?d = "d\<lparr>json_file := Some ?res\<rparr>"
  from Cons.prems have "\<forall>t \<in> set xs. is_dict t" by simp
  from Cons.IH [OF this, of "cur + length ms" ?res ?d] obtain bs where
    bs: "length bs = length xs"
      "\<forall>i < length xs. build_bundle be ms (cur + length ms + i * length ms) (xs ! i) =
                               Inr (cur + length ms + Suc i * length ms, bs ! i)"
      "run_tests be ms \<lparr>results = ?res, files = ?d, current = cur + length ms\<rparr> xs =
             (\<lparr> results = ?res\<lparr>res_tests := res_tests ?res @ bs\<rparr>,
                files = (if xs = [] then ?d
                         else ?d\<lparr>json_file := Some (?res\<lparr>res_tests := res_tests ?res @ bs\<rparr>)\<rparr>),
                current = cur + length ms + length xs * length ms \<rparr>, None)"
    by blast
  have 1: "length (tr # bs) = length (x # xs)" using bs(1) by simp
  have 2: "\<forall>i < length (x # xs). build_bundle be ms (cur + i * length ms) ((x # xs) ! i) =
                               Inr (cur + Suc i * length ms, (tr # bs) ! i)"
  proof (intro allI impI)
    fix i assume i: "i < length (x # xs)"
    show "build_bundle be ms (cur + i * length ms) ((x # xs) ! i) =
                               Inr (cur + Suc i * length ms, (tr # bs) ! i)"
    proof (cases i)
      case 0
      with tr show ?thesis by simp
    next
      case (Suc j)
      with i have "j < length xs" by simp
      with bs(2) have "build_bundle be ms (cur + length ms + j * length ms) (xs ! j) =
                               Inr (cur + length ms + Suc j * length ms, bs ! j)" by blast
      with Suc show ?thesis by (simp add: add.assoc)
    qed
  qed
  have 3: "run_tests be ms \<lparr>results = res, files = d, current = cur\<rparr> (x # xs) =
             (\<lparr> results = res\<lparr>res_tests := res_tests res @ (tr # bs)\<rparr>,
                files = (if x # xs = [] then d
                         else d\<lparr>json_file := Some (res\<lparr>res_tests := res_tests res @ (tr # bs)\<rparr>)\<rparr>),
                current = cur + length (x # xs) * length ms \<rparr>, None)"
    using bs(1,3) by (auto simp add: process_test_bundle [OF tr])
  from 1 2 3 show ?case by blast
qed

subsection \<open>Field resolution\<close>

text \<open>
  C8. A record is turned into a bundle, the one appended to the run, whose question is the
  value of \<^verbatim>\<open>question\<close> when that field is present and non-empty (for any value: when
  it is true in Python's sense), and otherwise the value of \<^verbatim>\<open>q\<close>, \<^verbatim>\<open>None\<close> when there
  is no \<^verbatim>\<open>q\<close>; whose id is the value of \<^verbatim>\<open>id\<close>, or \<^verbatim>\<open>unknown\<close> when the field is
  absent; and whose category is the value of \<^verbatim>\<open>category\<close>, or \<^verbatim>\<open>general\<close> when the
  field is absent.
\<close>

theorem test_case_field_resolution:
  "\<exists>st' tr. process_test be models st (PDict d) = Inr st' \<and>
      res_tests (results st') = res_tests (results st) @ [tr] \<and>
      (\<forall>s. map_of d ''question'' = Some (PStr s) \<longrightarrow> s \<noteq> [] \<longrightarrow> tr_question tr = PStr s) \<and>
      (\<forall>v. map_of d ''question'' = Some v \<longrightarrow> py_truthy v \<longrightarrow> tr_question tr = v) \<and>
      (map_of d ''question'' = None \<or> map_of d ''question'' = Some (PStr []) \<longrightarrow>
         (\<forall>v. map_of d ''q'' = Some v \<longrightarrow> tr_question tr = v) \<and>
         (map_of d ''q'' = None \<longrightarrow> tr_question tr = PNone)) \<and>
      (\<forall>v. map_of d ''question'' = Some v \<longrightarrow> \<not> py_truthy v \<longrightarrow>
         tr_question tr = dict_get d ''q'' PNone) \<and>
      (map_of d ''id'' = None \<longrightarrow> tr_id tr = PStr ''unknown'') \<and>
      (\<forall>v. map_of d ''id'' = Some v \<longrightarrow> tr_id tr = v) \<and>
      (map_of d ''category'' = None \<longrightarrow> tr_category tr = PStr ''general'') \<and>
      (\<forall>v. map_of d ''category'' = Some v \<longrightarrow> tr_category tr = v)"
proof -
  obtain res f cur where st: "st = \<lparr>results = res, files = f, current = cur\<rparr>"
    by (cases st) simp
  let ?q = "py_or (dict_get d ''question'' PNone) (dict_get d ''q'' PNone)"
  let ?tr = "\<lparr> tr_id = dict_get d ''id'' (PStr ''unknown''), tr_question = ?q,
            tr_category = dict_get d ''category'' (PStr ''general''),
            tr_responses = snd (query_models be ?q models cur []) \<rparr>"
  have p: "process_test be models st (PDict d) =
     Inr \<lparr> results = res\<lparr>res_tests := res_tests res @ [?tr]\<rparr>,
           files = f\<lparr>json_file := Some (res\<lparr>res_tests := res_tests res @ [?tr]\<rparr>)\<rparr>,
           current = cur + length models \<rparr>"
    unfolding st by (rule process_test_bundle) (rule build_bundle_dict)
  have q: "(\<forall>s. map_of d ''question'' = Some (PStr s) \<longrightarrow> s \<noteq> [] \<longrightarrow> ?q = PStr s) \<and>
      (\<forall>v. map_of d ''question'' = Some v \<longrightarrow> py_truthy v \<longrightarrow> ?q = v) \<and>
      (map_of d ''question'' = None \<or> map_of d ''question'' = Some (PStr []) \<longrightarrow>
         (\<forall>v. map_of d ''q'' = Some v \<longrightarrow> ?q = v) \<and>
         (map_of d ''q'' = None \<longrightarrow> ?q = PNone)) \<and>
      (\<forall>v. map_of d ''question'' = Some v \<longrightarrow> \<not> py_truthy v \<longrightarrow> ?q = dict_get d ''q'' PNone)"
    by (auto simp add: py_or_def dict_get_def py_truthy_def)
  have i: "(map_of d ''id'' = None \<longrightarrow> dict_get d ''id'' (PStr ''unknown'') = PStr ''unknown'') \<and>
      (\<forall>v. map_of d ''id'' = Some v \<longrightarrow> dict_get d ''id'' (PStr ''unknown'') = v) \<and>
      (map_of d ''category'' = None \<longrightarrow> dict_get d ''category'' (PStr ''general'') = PStr ''general'') \<and>
      (\<forall>v. map_of d ''category'' = Some v \<longrightarrow> dict_get d ''category'' (PStr ''general'') = v)"
    by (simp add: dict_get_def)
  let ?st' = "\<lparr> results = res\<lparr>res_tests := res_tests res @ [?tr]\<rparr>,
           files = f\<lparr>json_file := Some (res\<lparr>res_tests := res_tests res @ [?tr]\<rparr>)\<rparr>,
           current = cur + length models \<rparr>"
  have r: "res_tests (results ?st') = res_tests (results st) @ [?tr]" by (simp add: st)
  have f: "tr_question ?tr = ?q" "tr_id ?tr = dict_get d ''id'' (PStr ''unknown'')"
    "tr_category ?tr = dict_get d ''category'' (PStr ''general'')" by simp_all
  show ?thesis
    apply (rule exI [of _ ?st'])
    apply (rule exI [of _ ?tr])
    unfolding f
    apply (intro conjI)
    apply (rule p)
    apply (rule r)
    using q i by blast+
qed

theorem test_case_field_resolution_witness:
  "(\<exists>st' tr. process_test example_backend example_models example_state (PDict alias_record) = Inr st' \<and>
      res_tests (results st') = res_tests (results example_state) @ [tr] \<and>
      tr_question tr = PStr ''Hva er 2 + 2?'' \<and> tr_id tr = PStr ''unknown'' \<and>
      tr_category tr = PStr ''general'') \<and>
   (\<exists>st' tr. process_test example_backend example_models example_state (PDict full_record) = Inr st' \<and>
      res_tests (results st') = res_tests (results example_state) @ [tr] \<and>
      tr_question tr = PStr ''Hva er hovedstaden i Norge?'' \<and> tr_id tr = PStr ''t1'' \<and>
      tr_category tr = PStr ''geo'') \<and>
   (\<exists>st' tr. process_test example_backend example_models example_state (PDict empty_question_record) = Inr st' \<and>
      res_tests (results st') = res_tests (results example_state) @ [tr] \<and>
      tr_question tr = PStr ''Hvem?'' \<and> tr_id tr = PStr ''t3'' \<and>
      tr_category tr = PStr ''general'')"
proof (intro conjI)
  show "\<exists>st' tr. process_test example_backend example_models example_state (PDict alias_record) = Inr st' \<and>
      res_tests (results st') = res_tests (results example_state) @ [tr] \<and>
      tr_question tr = PStr ''Hva er 2 + 2?'' \<and> tr_id tr = PStr ''unknown'' \<and>
      tr_category tr = PStr ''general''"
    using test_case_field_resolution [of example_backend example_models example_state alias_record]
    by (simp add: alias_record_def)
next
  show "\<exists>st' tr. process_test example_backend example_models example_state (PDict full_record) = Inr st' \<and>
      res_tests (results st') = res_tests (results example_state) @ [tr] \<and>
      tr_question tr = PStr ''Hva er hovedstaden i Norge?'' \<and> tr_id tr = PStr ''t1'' \<and>
      tr_category tr = PStr ''geo''"
    using test_case_field_resolution [of example_backend example_models example_state full_record]
    by (simp add: full_record_def py_truthy_def)
next
  show "\<exists>st' tr. process_test example_backend example_models example_state (PDict empty_question_record) = Inr st' \<and>
      res_tests (results st') = res_tests (results example_state) @ [tr] \<and>
      tr_question tr = PStr ''Hvem?'' \<and> tr_id tr = PStr ''t3'' \<and>
      tr_category tr = PStr ''general''"
    using test_case_field_resolution [of example_backend example_models example_state empty_question_record]
    by (simp add: empty_question_record_def py_truthy_def dict_get_def)
qed

subsection \<open>Snapshots\<close>

lemma build_bundle_kept:
  assumes b: "build_bundle be models cur t = Inr (c, tr)"
    and models: "models = ms1 @ (n, mid) # ms2" and last: "n \<notin> fst ` set ms2"
  shows "map_of (tr_responses tr) n =
         Some (query_ollama (be (Suc (cur + length ms1))) mid (tr_question tr))"
proof (cases "is_dict t")
  case False
  with b show ?thesis by (simp add: build_bundle_not_dict)
next
  case True
  then obtain d where "t = PDict d" by (cases t) (simp_all add: is_dict_def)
  with b have tr: "tr_question tr = py_or (dict_get d ''question'' PNone) (dict_get d ''q'' PNone)"
    "tr_responses tr = snd (query_models be (py_or (dict_get d ''question'' PNone)
        (dict_get d ''q'' PNone)) models cur [])"
    by (auto simp add: build_bundle_dict)
  show ?thesis
    unfolding tr models using last by (rule query_models_last)
qed

text \<open>
  C1, as amended. Before the first test completes the loop leaves the files as they
  were. Let the first \<open>K\<close> of the tests be records, \<open>K\<close> at least one. When the loop
  has processed them, the run goes on from a state whose JSON file holds the whole run so
  far: the timestamp, the model names, and exactly \<open>K\<close> bundles, the \<open>i\<close>-th having the
  id, question and category of the \<open>i\<close>-th test. The names under which a bundle on disk
  holds a response are the display names of all the models, never a part of them, and
  under the display name of a model the bundle holds the value that \<^verbatim>\<open>query_ollama\<close>
  returned for the last model bearing that name, asked the question of the bundle in the
  query numbered by the place of the test and of the model. The CSV file is not touched
  by the loop.
\<close>

theorem snapshot_prefix_consistent:
  assumes "0 < K" and "K \<le> length tests" and "\<forall>t \<in> set (take K tests). is_dict t"
  shows "files (fst (run_tests be models (initial_state now models d0) [])) = d0 \<and>
   (\<exists>st snap.
     run_tests be models (initial_state now models d0) (take K tests) = (st, None) \<and>
     run_tests be models (initial_state now models d0) tests = run_tests be models st (drop K tests) \<and>
     json_file (files st) = Some snap \<and> results st = snap \<and>
     csv_file (files st) = csv_file d0 \<and>
     res_timestamp snap = now \<and> res_models snap = map fst models \<and>
     length (res_tests snap) = K \<and>
     (\<forall>i < K. make_test_result (tests ! i) = Inr ((res_tests snap ! i)\<lparr>tr_responses := []\<rparr>)) \<and>
     (\<forall>i < K. build_bundle be models (i * length models) (tests ! i) =
                 Inr (Suc i * length models, res_tests snap ! i)) \<and>
     (\<forall>b \<in> set (res_tests snap). fst ` set (tr_responses b) = fst ` set models) \<and>
     (\<forall>i < K. \<forall>ms1 n mid ms2. models = ms1 @ (n, mid) # ms2 \<longrightarrow> n \<notin> fst ` set ms2 \<longrightarrow>
        map_of (tr_responses (res_tests snap ! i)) n =
          Some (query_ollama (be (Suc (i * length models + length ms1))) mid
                  (tr_question (res_tests snap ! i)))))"
proof
  show "files (fst (run_tests be models (initial_state now models d0) [])) = d0"
    by (simp add: initial_state_def)
next
  let ?res = "\<lparr>res_timestamp = now, res_models = map fst models, res_tests = []\<rparr>"
  let ?xs = "take K tests"
  have len: "length ?xs = K" using assms(2) by simp
  have ne: "?xs \<noteq> []" using assms(1,2) by auto
  from run_tests_dicts [OF assms(3), of be models 0 ?res d0] len ne obtain bs where
    bs: "length bs = K"
      "\<forall>i < K. build_bundle be models (i * length models) (?xs ! i) =
                 Inr (Suc i * length models, bs ! i)"
      "run_tests be models \<lparr>results = ?res, files = d0, current = 0\<rparr> ?xs =
         (\<lparr> results = ?res\<lparr>res_tests := bs\<rparr>,
            files = d0\<lparr>json_file := Some (?res\<lparr>res_tests := bs\<rparr>)\<rparr>,
            current = K * length models \<rparr>, None)"
    by auto
  let ?snap = "?res\<lparr>res_tests := bs\<rparr>"
  let ?st = "\<lparr> results = ?snap, files = d0\<lparr>json_file := Some ?snap\<rparr>,
              current = K * length models \<rparr>"
  have run: "run_tests be models (initial_state now models d0) ?xs = (?st, None)"
    using bs(3) by (simp add: initial_state_def)
  have "run_tests be models (initial_state now models d0) (?xs @ drop K tests) =
        run_tests be models ?st (drop K tests)"
    by (simp only: run_tests_append run split: prod.splits option.splits) simp
  then have rest: "run_tests be models (initial_state now models d0) tests =
        run_tests be models ?st (drop K tests)" by simp
  have bundles: "\<forall>i < K. build_bundle be models (i * length models) (tests ! i) =
                 Inr (Suc i * length models, bs ! i)"
    using bs(2) by simp
  have fields: "\<forall>i < K. make_test_result (tests ! i) = Inr ((bs ! i)\<lparr>tr_responses := []\<rparr>)"
    using bundles build_bundle_fields by blast
  have each: "\<forall>b \<in> set bs. \<exists>i c t. build_bundle be models c t = Inr (Suc i * length models, b)"
  proof
    fix b assume "b \<in> set bs"
    then obtain i where "i < length bs" "bs ! i = b" by (auto simp add: in_set_conv_nth)
    with bundles bs(1) show "\<exists>i c t. build_bundle be models c t = Inr (Suc i * length models, b)"
      by blast
  qed
  have keys: "\<forall>b \<in> set bs. fst ` set (tr_responses b) = fst ` set models"
    using each build_bundle_keys by blast
  have kept: "\<forall>i < K. \<forall>ms1 n mid ms2. models = ms1 @ (n, mid) # ms2 \<longrightarrow> n \<notin> fst ` set ms2 \<longrightarrow>
        map_of (tr_responses (bs ! i)) n =
          Some (query_ollama (be (Suc (i * length models + length ms1))) mid (tr_question (bs ! i)))"
  proof (intro allI impI)
    fix i ms1 n mid ms2
    assume i: "i < K" and m: "models = ms1 @ (n, mid) # ms2" and l: "n \<notin> fst ` set ms2"
    from bundles i have "build_bundle be models (i * length models) (tests ! i) =
                 Inr (Suc i * length models, bs ! i)" by simp
    from build_bundle_kept [OF this m l]
    show "map_of (tr_responses (bs ! i)) n =
          Some (query_ollama (be (Suc (i * length models + length ms1))) mid (tr_question (bs ! i)))" .
  qed
  show "\<exists>st snap.
     run_tests be models (initial_state now models d0) (take K tests) = (st, None) \<and>
     run_tests be models (initial_state now models d0) tests = run_tests be models st (drop K tests) \<and>
     json_file (files st) = Some snap \<and> results st = snap \<and>
     csv_file (files st) = csv_file d0 \<and>
     res_timestamp snap = now \<and> res_models snap = map fst models \<and>
     length (res_tests snap) = K \<and>
     (\<forall>i < K. make_test_result (tests ! i) = Inr ((res_tests snap ! i)\<lparr>tr_responses := []\<rparr>)) \<and>
     (\<forall>i < K. build_bundle be models (i * length models) (tests ! i) =
                 Inr (Suc i * length models, res_tests snap ! i)) \<and>
     (\<forall>b \<in> set (res_tests snap). fst ` set (tr_responses b) = fst ` set models) \<and>
     (\<forall>i < K. \<forall>ms1 n mid ms2. models = ms1 @ (n, mid) # ms2 \<longrightarrow> n \<notin> fst ` set ms2 \<longrightarrow>
        map_of (tr_responses (res_tests snap ! i)) n =
          Some (query_ollama (be (Suc (i * length models + length ms1))) mid
                  (tr_question (res_tests snap ! i))))"
    apply (rule exI [of _ ?st])
    apply (rule exI [of _ ?snap])
    apply (intro conjI)
    apply (rule run)
    apply (rule rest)
    apply simp
    apply simp
    apply simp
    apply simp
    apply simp
    using bs(1) apply simp
    using fields apply simp
    using bundles apply simp
    using keys apply simp
    using kept apply simp
    done
qed



theorem snapshot_prefix_consistent_witness:
  "\<exists>st snap.
     run_tests example_backend example_models (initial_state example_now example_models empty_disk)
       (take 2 crash_tests) = (st, None) \<and>
     run_tests example_backend example_models (initial_state example_now example_models empty_disk)
       crash_tests = (st, Some (AttributeError ''list'' ''get'')) \<and>
     json_file (files st) = Some snap \<and>
     length (res_tests snap) = 2 \<and>
     map tr_id (res_tests snap) = [PStr ''t1'', PStr ''unknown''] \<and>
     map tr_responses (res_tests snap) =
       [[(''A'', PStr ''Oslo''), (''B'', PStr ''[ERROR: refused]'')],
        [(''A'', PStr ''Oslo''), (''B'', PStr ''[ERROR: refused]'')]] \<and>
     map_of (tr_responses (res_tests snap ! 1)) ''B'' =
       Some (query_ollama (example_backend 4) ''b-id'' (PStr ''Hva er 2 + 2?''))"
proof -
  have h1: "0 < (2::nat)" by simp
  have h2: "2 \<le> length crash_tests" by (simp add: crash_tests_def)
  have h3: "\<forall>t \<in> set (take 2 crash_tests). is_dict t" by (simp add: crash_tests_def is_dict_def)
  from snapshot_prefix_consistent [OF h1 h2 h3, of example_backend example_models example_now empty_disk]
  obtain st snap where w:
    "run_tests example_backend example_models (initial_state example_now example_models empty_disk)
       (take 2 crash_tests) = (st, None)"
    "run_tests example_backend example_models (initial_state example_now example_models empty_disk)
       crash_tests = run_tests example_backend example_models st (drop 2 crash_tests)"
    "json_file (files st) = Some snap" "results st = snap" "length (res_tests snap) = 2"
    "\<forall>i < 2. build_bundle example_backend example_models (i * length example_models) (crash_tests ! i) =
                 Inr (Suc i * length example_models, res_tests snap ! i)"
    "\<forall>i < 2. \<forall>ms1 n mid ms2. example_models = ms1 @ (n, mid) # ms2 \<longrightarrow> n \<notin> fst ` set ms2 \<longrightarrow>
        map_of (tr_responses (res_tests snap ! i)) n =
          Some (query_ollama (example_backend (Suc (i * length example_models + length ms1))) mid
                  (tr_question (res_tests snap ! i)))"
    by (elim conjE exE) (rule that, assumption+)
  define x0 where "x0 = res_tests snap ! 0"
  define x1 where "x1 = res_tests snap ! 1"
  have b0: "build_bundle example_backend example_models 0 (PDict full_record) = Inr (2, x0)"
    using w(6) [rule_format, of 0] by (simp add: crash_tests_def example_models_def x0_def)
  have b1: "build_bundle example_backend example_models 2 (PDict alias_record) = Inr (4, x1)"
    using w(6) [rule_format, of 1]
    by (simp add: crash_tests_def example_models_def numeral_eq_Suc x1_def)
  have two: "res_tests snap = [x0, x1]"
    using w(5) unfolding x0_def x1_def
    by (cases "res_tests snap"; cases "tl (res_tests snap)") auto
  have i0: "tr_id x0 = PStr ''t1'' \<and>
      tr_responses x0 = [(''A'', PStr ''Oslo''), (''B'', PStr ''[ERROR: refused]'')]"
    using b0 by (auto simp add: build_bundle_dict example_models_def full_record_def dict_get_def
        query_ollama_def try_body_def get_response_def py_get_def example_backend_def)
  have i1: "tr_id x1 = PStr ''unknown'' \<and> tr_question x1 = PStr ''Hva er 2 + 2?'' \<and>
      tr_responses x1 = [(''A'', PStr ''Oslo''), (''B'', PStr ''[ERROR: refused]'')]"
    using b1 by (auto simp add: build_bundle_dict example_models_def alias_record_def dict_get_def
        py_or_def py_truthy_def
        query_ollama_def try_body_def get_response_def py_get_def example_backend_def)
  have ids: "map tr_id (res_tests snap) = [PStr ''t1'', PStr ''unknown'']"
    by (simp add: two i0 i1)
  have rs: "map tr_responses (res_tests snap) =
       [[(''A'', PStr ''Oslo''), (''B'', PStr ''[ERROR: refused]'')],
        [(''A'', PStr ''Oslo''), (''B'', PStr ''[ERROR: refused]'')]]"
    by (simp add: two i0 i1)
  have "example_models = [(''A'', ''a-id'')] @ (''B'', ''b-id'') # []"
    by (simp add: example_models_def)
  with w(7) [rule_format, of 1 "[(''A'', ''a-id'')]" "''B''" "''b-id''" "[]"]
  have kept: "map_of (tr_responses (res_tests snap ! 1)) ''B'' =
       Some (query_ollama (example_backend 4) ''b-id'' (PStr ''Hva er 2 + 2?''))"
    using i1 by (simp add: x1_def example_models_def numeral_eq_Suc)
  have "process_test example_backend example_models st (PList []) = Inl (AttributeError ''list'' ''get'')"
    by (simp add: process_test_error build_bundle_not_dict is_dict_def type_name_def)
  then have "run_tests example_backend example_models st (drop 2 crash_tests) =
      (st, Some (AttributeError ''list'' ''get''))"
    by (simp add: crash_tests_def)
  with w(2) have crash: "run_tests example_backend example_models
       (initial_state example_now example_models empty_disk) crash_tests =
       (st, Some (AttributeError ''list'' ''get''))" by simp
  show ?thesis
    by (intro exI conjI) (rule w(1) crash w(3) w(5) ids rs kept)+
qed



text \<open>
  C1 as stated fails in three places. When the backend replies \<^verbatim>\<open>{"response": null}\<close>
  the bundle on disk holds \<^verbatim>\<open>None\<close>, not a string, under both models. When no test
  has been processed, and there was no file before the run, there is no snapshot. When
  two models share a display name, the bundle holds one response for the two of them.
\<close>

theorem snapshot_claim_counterexample:
  "run_evaluation null_backend example_now [PDict spec_record] example_models empty_disk =
     (\<lparr> json_file = Some \<lparr> res_timestamp = example_now, res_models = [''A'', ''B''],
                            res_tests = [null_bundle] \<rparr>,
         csv_file = Some (spec_header @ [NL]) \<rparr>,
      Inl (AttributeError ''NoneType'' ''replace'')) \<and>
   \<not> is_str (snd (tr_responses null_bundle ! 0)) \<and>
   json_file (files (fst (run_tests example_backend example_models
                (initial_state example_now example_models empty_disk) (take 0 crash_tests)))) = None \<and>
   json_file (fst (run_evaluation example_backend example_now [PDict spec_record] twin_models
                     empty_disk)) =
     Some \<lparr> res_timestamp = example_now, res_models = [''A'', ''A''], res_tests = [twin_bundle] \<rparr> \<and>
   length (tr_responses twin_bundle) = 1 \<and> length twin_models = 2"
  by (simp add: run_evaluation_def initial_state_def process_test_def build_bundle_def
      make_test_result_def spec_record_def dict_get_def py_or_def py_truthy_def example_models_def
      twin_models_def query_ollama_def try_body_def get_response_def py_get_def example_backend_def
      null_backend_def null_response_post_def empty_disk_def write_csv_def header_line_def
      csv_row_def row_cells_def response_cell_def replace_tab_nl_def replace_char_def py_join_def
      spec_header_def null_bundle_def twin_bundle_def type_name_def is_str_def Let_def
      TAB_def NL_def)

section \<open>Result exporter\<close>

subsection \<open>Cells\<close>

lemma replace_tab_nl_str: "replace_tab_nl (PStr s) = Inr (spaced s)"
  by (simp add: replace_tab_nl_def replace_char_def spaced_def NL_def TAB_def)

lemma replace_tab_nl_Inr: "replace_tab_nl x = Inr s \<longleftrightarrow> (\<exists>t. x = PStr t \<and> s = spaced t)"
  by (cases x) (auto simp add: replace_tab_nl_str, simp_all add: replace_tab_nl_def)

lemma replace_tab_nl_none: "replace_tab_nl PNone = Inl (AttributeError ''NoneType'' ''replace'')"
  by (simp add: replace_tab_nl_def type_name_def)

lemma spaced_clean: "TAB \<notin> set (spaced s) \<and> NL \<notin> set (spaced s) \<and> length (spaced s) = length s"
  by (auto simp add: spaced_def TAB_def NL_def)

lemma response_cell_Inr:
  "response_cell r n = Inr c \<longleftrightarrow> (\<exists>t. dict_get r n (PStr []) = PStr t \<and> c = take 500 (spaced t))"
  by (auto simp add: response_cell_def replace_tab_nl_Inr split: sum.splits)
    (metis replace_tab_nl_str sum.distinct(1) sum.inject(2))+

lemma response_cells_Inr:
  "response_cells r names = Inr cs \<Longrightarrow>
   length cs = length names \<and> (\<forall>j < length names. response_cell r (names ! j) = Inr (cs ! j))"
proof (induction names arbitrary: cs)
  case Nil
  then show ?case by simp
next
  case (Cons n names)
  from Cons.prems obtain c cs' where c: "response_cell r n = Inr c"
    and cs': "response_cells r names = Inr cs'" and cs: "cs = c # cs'"
    by (auto split: sum.splits)
  from Cons.IH [OF cs'] have ih: "length cs' = length names"
    "\<forall>j < length names. response_cell r (names ! j) = Inr (cs' ! j)" by simp_all
  show ?case
  proof (intro conjI allI impI)
    show "length cs = length (n # names)" using ih(1) cs by simp
  next
    fix j assume "j < length (n # names)"
    then show "response_cell r ((n # names) ! j) = Inr (cs ! j)"
      using c ih(2) cs by (cases j) simp_all
  qed
qed

lemma response_cells_total:
  "\<forall>n \<in> set names. \<exists>c. response_cell r n = Inr c \<Longrightarrow> \<exists>cs. response_cells r names = Inr cs"
  by (induction names) auto

lemma str_items_strs: "str_items i (map PStr ss) = Inr ss"
  by (induction ss arbitrary: i) simp_all

lemma str_items_Inr: "str_items i xs = Inr ss \<Longrightarrow> xs = map PStr ss"
proof (induction xs arbitrary: i ss)
  case Nil
  then show ?case by simp
next
  case (Cons x xs)
  then show ?case by (cases x) (auto split: sum.splits)
qed

lemma py_join_strs: "py_join sep (map PStr ss) = Inr (join_str sep ss)"
  by (simp add: py_join_def str_items_strs)

subsection \<open>Rows\<close>

lemma csv_row_strs:
  assumes "tr_id t = PStr tid" and "tr_category t = PStr cat" and "tr_question t = PStr q"
    and "response_cells (tr_responses t) names = Inr cs"
  shows "csv_row names t = Inr (join_str [TAB] (tid # cat # spaced q # cs) @ [NL])"
proof -
  have "row_cells names t = Inr (map PStr (tid # cat # spaced q # cs))"
    using assms by (simp add: row_cells_def replace_tab_nl_str)
  then show ?thesis by (simp only: csv_row_def py_join_strs sum.case)
qed

lemma csv_row_Inr:
  assumes "csv_row names t = Inr line"
  shows "\<exists>tid cat q cs. tr_id t = PStr tid \<and> tr_category t = PStr cat \<and> tr_question t = PStr q \<and>
           response_cells (tr_responses t) names = Inr cs \<and>
           line = join_str [TAB] (tid # cat # spaced q # cs) @ [NL]"
proof -
  from assms obtain row l where row: "row_cells names t = Inr row"
    and l: "py_join [TAB] row = Inr l" and line: "line = l @ [NL]"
    by (auto simp add: csv_row_def split: sum.splits)
  from row obtain s cs where s: "replace_tab_nl (tr_question t) = Inr s"
    and cs: "response_cells (tr_responses t) names = Inr cs"
    and r: "row = [tr_id t, tr_category t, PStr s] @ map PStr cs"
    by (auto simp add: row_cells_def split: sum.splits)
  from s obtain q where q: "tr_question t = PStr q" "s = spaced q"
    by (auto simp add: replace_tab_nl_Inr)
  from l obtain ss where ss: "str_items 0 row = Inr ss" "l = join_str [TAB] ss"
    by (auto simp add: py_join_def split: sum.splits)
  from str_items_Inr [OF ss(1)] r have m: "[tr_id t, tr_category t, PStr s] @ map PStr cs = map PStr ss"
    by simp
  then obtain tid cat rest where "ss = tid # cat # s # rest" "tr_id t = PStr tid" "tr_category t = PStr cat"
    "map PStr cs = map PStr rest"
    by (cases ss; cases "tl ss"; cases "tl (tl ss)") auto
  moreover from this have "rest = cs" by (simp add: inj_on_def)
  ultimately show ?thesis using q cs ss(2) line by simp
qed

lemma csv_row_null_question:
  "tr_question t = PNone \<Longrightarrow> csv_row names t = Inl (AttributeError ''NoneType'' ''replace'')"
  by (simp add: csv_row_def row_cells_def replace_tab_nl_none)

subsection \<open>The file\<close>

lemma write_rows_Inr:
  "write_rows names f ts = (text, None) \<Longrightarrow>
   \<exists>rows. length rows = length ts \<and> (\<forall>i < length ts. csv_row names (ts ! i) = Inr (rows ! i)) \<and>
          text = f @ concat rows"
proof (induction ts arbitrary: f)
  case Nil
  then show ?case by simp
next
  case (Cons t ts)
  from Cons.prems obtain line where line: "csv_row names t = Inr line"
    and rest: "write_rows names (f @ line) ts = (text, None)"
    by (auto split: sum.splits)
  from Cons.IH [OF rest] obtain rows where rows: "length rows = length ts"
    "\<forall>i < length ts. csv_row names (ts ! i) = Inr (rows ! i)" "text = (f @ line) @ concat rows"
    by blast
  have "\<forall>i < length (t # ts). csv_row names ((t # ts) ! i) = Inr ((line # rows) ! i)"
  proof (intro allI impI)
    fix i assume "i < length (t # ts)"
    then show "csv_row names ((t # ts) ! i) = Inr ((line # rows) ! i)"
      using line rows(2) by (cases i) simp_all
  qed
  moreover have "length (line # rows) = length (t # ts)" using rows(1) by simp
  moreover have "text = f @ concat (line # rows)" using rows(3) by simp
  ultimately show ?case by blast
qed

lemma write_rows_stop:
  "length rows = length pre \<Longrightarrow> \<forall>i < length pre. csv_row names (pre ! i) = Inr (rows ! i) \<Longrightarrow>
   csv_row names t = Inl e \<Longrightarrow>
   write_rows names f (pre @ t # post) = (f @ concat rows, Some e)"
proof (induction pre arbitrary: f rows)
  case Nil
  then show ?case by simp
next
  case (Cons p pre)
  from Cons.prems(1) obtain r rs where rows: "rows = r # rs" "length rs = length pre"
    by (cases rows) simp_all
  from Cons.prems(2) rows have p: "csv_row names p = Inr r" by auto
  from Cons.prems(2) rows have "\<forall>i < length pre. csv_row names (pre ! i) = Inr (rs ! i)" by auto
  from Cons.IH [OF rows(2) this Cons.prems(3), of "f @ r"] p rows
  show ?case by simp
qed

lemma write_rows_all:
  "length rows = length ts \<Longrightarrow> \<forall>i < length ts. csv_row names (ts ! i) = Inr (rows ! i) \<Longrightarrow>
   write_rows names f ts = (f @ concat rows, None)"
proof (induction ts arbitrary: f rows)
  case Nil
  then show ?case by simp
next
  case (Cons t ts)
  from Cons.prems(1) obtain r rs where rows: "rows = r # rs" "length rs = length ts"
    by (cases rows) simp_all
  from Cons.prems(2) rows have p: "csv_row names t = Inr r" by auto
  from Cons.prems(2) rows have "\<forall>i < length ts. csv_row names (ts ! i) = Inr (rs ! i)" by auto
  from Cons.IH [OF rows(2) this, of "f @ r"] p rows
  show ?case by simp
qed

lemma header_line_columns:
  "header_line names = join_str [TAB] (''ID'' # ''Category'' # ''Question'' # names) @ [NL]"
  by (simp add: header_line_def)

subsection \<open>The whole run\<close>

lemma run_evaluation_Inr:
  assumes "run_evaluation be now tests models d0 = (d', Inr run)"
  shows "\<exists>st text. run_tests be models (initial_state now models d0) tests = (st, None) \<and>
           results st = run \<and>
           write_csv (map fst models) (res_tests run) = (text, None) \<and>
           d' = (files st)\<lparr>csv_file := Some text\<rparr>"
proof -
  obtain st err where r: "run_tests be models (initial_state now models d0) tests = (st, err)"
    by (cases "run_tests be models (initial_state now models d0) tests")
  obtain out err2 where w: "write_csv (map fst models) (res_tests (results st)) = (out, err2)"
    by (cases "write_csv (map fst models) (res_tests (results st))")
  from assms r w show ?thesis
    by (cases err; cases err2) (auto simp add: run_evaluation_def Let_def)
qed

lemma run_tests_Inr_dicts:
  "run_tests be ms st xs = (st', None) \<Longrightarrow> \<forall>t \<in> set xs. is_dict t"
proof (induction xs arbitrary: st)
  case Nil
  then show ?case by simp
next
  case (Cons x xs)
  show ?case
  proof (cases "is_dict x")
    case False
    then have "process_test be ms st x = Inl (AttributeError (type_name x) ''get'')"
      by (simp add: process_test_error build_bundle_not_dict)
    with Cons.prems show ?thesis by simp
  next
    case True
    from Cons.prems obtain st1 where "process_test be ms st x = Inr st1"
      "run_tests be ms st1 xs = (st', None)" by (auto split: sum.splits)
    from Cons.IH [OF this(2)] True show ?thesis by simp
  qed
qed

lemma complete_run:
  assumes "\<forall>t \<in> set tests. is_dict t"
  shows "\<exists>bs. length bs = length tests \<and>
           (\<forall>i < length tests. build_bundle be models (i * length models) (tests ! i) =
                               Inr (Suc i * length models, bs ! i)) \<and>
           run_tests be models (initial_state now models d0) tests =
             (\<lparr> results = \<lparr>res_timestamp = now, res_models = map fst models, res_tests = bs\<rparr>,
                files = (if tests = [] then d0
                         else d0\<lparr>json_file := Some \<lparr>res_timestamp = now, res_models = map fst models,
                                                    res_tests = bs\<rparr>\<rparr>),
                current = length tests * length models \<rparr>, None)"
proof -
  let ?res = "\<lparr>res_timestamp = now, res_models = map fst models, res_tests = []\<rparr>"
  from run_tests_dicts [OF assms, of be models 0 ?res d0] obtain bs where
    bs: "length bs = length tests"
      "\<forall>i < length tests. build_bundle be models (0 + i * length models) (tests ! i) =
                               Inr (0 + Suc i * length models, bs ! i)"
      "run_tests be models \<lparr>results = ?res, files = d0, current = 0\<rparr> tests =
             (\<lparr> results = ?res\<lparr>res_tests := res_tests ?res @ bs\<rparr>,
                files = (if tests = [] then d0
                         else d0\<lparr>json_file := Some (?res\<lparr>res_tests := res_tests ?res @ bs\<rparr>)\<rparr>),
                current = 0 + length tests * length models \<rparr>, None)"
    by blast
  show ?thesis
    apply (rule exI [of _ bs])
    apply (intro conjI)
    apply (rule bs(1))
    using bs(2) apply simp
    using bs(3) apply (simp add: initial_state_def)
    done
qed

lemma bundle_cells:
  assumes b: "build_bundle be models cur t = Inr (c, tr)"
    and cs: "response_cells (tr_responses tr) (map fst models) = Inr cells"
  shows "length cells = length models \<and>
         (\<forall>j < length models. \<exists>r. map_of (tr_responses tr) (fst (models ! j)) = Some (PStr r) \<and>
            cells ! j = take 500 (spaced r) \<and> length (cells ! j) \<le> 500 \<and>
            TAB \<notin> set (cells ! j) \<and> NL \<notin> set (cells ! j))"
proof (intro conjI allI impI)
  from response_cells_Inr [OF cs] show "length cells = length models" by simp
next
  fix j assume j: "j < length models"
  with response_cells_Inr [OF cs]
  have "response_cell (tr_responses tr) (fst (models ! j)) = Inr (cells ! j)" by simp
  then obtain r where r: "dict_get (tr_responses tr) (fst (models ! j)) (PStr []) = PStr r"
    "cells ! j = take 500 (spaced r)" by (auto simp add: response_cell_Inr)
  from j have "fst (models ! j) \<in> fst ` set models" by simp
  with build_bundle_keys [OF b] have "fst (models ! j) \<in> fst ` set (tr_responses tr)" by simp
  then obtain v where "map_of (tr_responses tr) (fst (models ! j)) = Some v"
    by (metis domD dom_map_of_conv_image_fst)
  with r(1) have m: "map_of (tr_responses tr) (fst (models ! j)) = Some (PStr r)"
    by (simp add: dict_get_def)
  have "set (take 500 (spaced r)) \<subseteq> set (spaced r)" by (rule set_take_subset)
  with spaced_clean [of r] have "TAB \<notin> set (take 500 (spaced r)) \<and> NL \<notin> set (take 500 (spaced r))"
    by blast
  with m r(2) show "\<exists>r. map_of (tr_responses tr) (fst (models ! j)) = Some (PStr r) \<and>
            cells ! j = take 500 (spaced r) \<and> length (cells ! j) \<le> 500 \<and>
            TAB \<notin> set (cells ! j) \<and> NL \<notin> set (cells ! j)" by simp
qed

lemma spec_example_run:
  "run_evaluation example_backend example_now [PDict spec_record] example_models empty_disk =
     (\<lparr> json_file = Some \<lparr> res_timestamp = example_now, res_models = [''A'', ''B''],
           res_tests = [\<lparr> tr_id = PStr ''t1'', tr_question = PStr ''Hva er hovedstaden i Norge?'',
                          tr_category = PStr ''geo'',
                          tr_responses = [(''A'', PStr ''Oslo''), (''B'', PStr ''[ERROR: refused]'')] \<rparr>] \<rparr>,
         csv_file = Some (spec_header @ [NL] @ spec_row @ [NL]) \<rparr>,
      Inr \<lparr> res_timestamp = example_now, res_models = [''A'', ''B''],
           res_tests = [\<lparr> tr_id = PStr ''t1'', tr_question = PStr ''Hva er hovedstaden i Norge?'',
                          tr_category = PStr ''geo'',
                          tr_responses = [(''A'', PStr ''Oslo''), (''B'', PStr ''[ERROR: refused]'')] \<rparr>] \<rparr>)"
  by (simp add: run_evaluation_def initial_state_def process_test_def build_bundle_def
      make_test_result_def spec_record_def dict_get_def py_or_def py_truthy_def example_models_def
      query_ollama_def try_body_def get_response_def py_get_def example_backend_def empty_disk_def
      write_csv_def header_line_def csv_row_def row_cells_def response_cell_def replace_tab_nl_def
      replace_char_def py_join_def spec_header_def spec_row_def Let_def TAB_def NL_def)


subsection \<open>Degenerate runs\<close>

lemma run_evaluation_complete:
  "run_tests be models (initial_state now models d0) tests = (st, None) \<Longrightarrow>
   write_csv (map fst models) (res_tests (results st)) = (out, None) \<Longrightarrow>
   run_evaluation be now tests models d0 = ((files st)\<lparr>csv_file := Some out\<rparr>, Inr (results st))"
  by (simp add: run_evaluation_def)

lemma run_evaluation_csv_error:
  "run_tests be models (initial_state now models d0) tests = (st, None) \<Longrightarrow>
   write_csv (map fst models) (res_tests (results st)) = (out, Some e) \<Longrightarrow>
   run_evaluation be now tests models d0 = ((files st)\<lparr>csv_file := Some out\<rparr>, Inl e)"
  by (simp add: run_evaluation_def)

lemma run_evaluation_no_tests:
  "run_evaluation be now [] models d0 =
     (d0\<lparr>csv_file := Some (join_str [TAB] (''ID'' # ''Category'' # ''Question'' # map fst models) @ [NL])\<rparr>,
      Inr \<lparr>res_timestamp = now, res_models = map fst models, res_tests = []\<rparr>)"
  by (simp add: run_evaluation_def initial_state_def write_csv_def header_line_def)

lemma build_bundle_no_models:
  "make_test_result t = Inr tr \<Longrightarrow> build_bundle be [] cur t = Inr (cur, tr)"
  by (cases t) (auto simp add: build_bundle_def make_test_result_def)

lemma make_test_result_Inr_dict: "make_test_result t = Inr tr \<Longrightarrow> is_dict t"
  by (cases t) (simp_all add: make_test_result_def is_dict_def)

lemma rows_exist:
  "\<forall>t \<in> set ts. \<exists>line. csv_row names t = Inr line \<Longrightarrow>
   \<exists>rows. length rows = length ts \<and> (\<forall>i < length ts. csv_row names (ts ! i) = Inr (rows ! i))"
proof (induction ts)
  case Nil
  then show ?case by simp
next
  case (Cons t ts)
  from Cons.prems obtain line where line: "csv_row names t = Inr line" by auto
  from Cons obtain rows where rows: "length rows = length ts"
    "\<forall>i < length ts. csv_row names (ts ! i) = Inr (rows ! i)" by auto
  have "\<forall>i < length (t # ts). csv_row names ((t # ts) ! i) = Inr ((line # rows) ! i)"
  proof (intro allI impI)
    fix i assume "i < length (t # ts)"
    then show "csv_row names ((t # ts) ! i) = Inr ((line # rows) ! i)"
      using line rows(2) by (cases i) simp_all
  qed
  moreover have "length (line # rows) = length (t # ts)" using rows(1) by simp
  ultimately show ?case by blast
qed

lemma run_evaluation_no_models:
  assumes typed: "\<forall>t \<in> set tests. \<exists>tid q cat. make_test_result t =
              Inr \<lparr>tr_id = PStr tid, tr_question = PStr q, tr_category = PStr cat, tr_responses = []\<rparr>"
    and ne: "tests \<noteq> []"
  shows "\<exists>run rows. run_evaluation be now tests [] d0 =
            (\<lparr> json_file = Some run,
                csv_file = Some (concat ((''ID'' @ [TAB] @ ''Category'' @ [TAB] @ ''Question'' @ [NL]) # rows)) \<rparr>,
             Inr run) \<and>
          res_timestamp run = now \<and> res_models run = [] \<and>
          length (res_tests run) = length tests \<and> length rows = length tests \<and>
          (\<forall>i < length tests. make_test_result (tests ! i) = Inr (res_tests run ! i) \<and>
             tr_responses (res_tests run ! i) = [] \<and>
             (\<exists>tid q cat. tr_id (res_tests run ! i) = PStr tid \<and>
                tr_question (res_tests run ! i) = PStr q \<and>
                tr_category (res_tests run ! i) = PStr cat \<and>
                rows ! i = tid @ [TAB] @ cat @ [TAB] @ spaced q @ [NL]))"
proof -
  from typed have "\<forall>t \<in> set tests. is_dict t" by (blast intro: make_test_result_Inr_dict)
  from complete_run [OF this, of be "[]" now d0] ne obtain bs where
    bs: "length bs = length tests"
      "\<forall>i < length tests. build_bundle be [] 0 (tests ! i) = Inr (0, bs ! i)"
      "run_tests be [] (initial_state now [] d0) tests =
             (\<lparr> results = \<lparr>res_timestamp = now, res_models = [], res_tests = bs\<rparr>,
                files = d0\<lparr>json_file := Some \<lparr>res_timestamp = now, res_models = [], res_tests = bs\<rparr>\<rparr>,
                current = 0 \<rparr>, None)"
    by auto
  let ?run = "\<lparr>res_timestamp = now, res_models = [], res_tests = bs\<rparr>"
  have each: "\<forall>i < length tests. make_test_result (tests ! i) = Inr (bs ! i) \<and>
             tr_responses (bs ! i) = [] \<and>
             (\<exists>tid q cat. tr_id (bs ! i) = PStr tid \<and> tr_question (bs ! i) = PStr q \<and>
                tr_category (bs ! i) = PStr cat \<and>
                csv_row [] (bs ! i) = Inr (tid @ [TAB] @ cat @ [TAB] @ spaced q @ [NL]))"
  proof (intro allI impI)
    fix i assume i: "i < length tests"
    with typed obtain tid q cat where m: "make_test_result (tests ! i) =
        Inr \<lparr>tr_id = PStr tid, tr_question = PStr q, tr_category = PStr cat, tr_responses = []\<rparr>"
      by (metis nth_mem)
    from build_bundle_no_models [OF m, of be 0] bs(2) i
    have b: "bs ! i = \<lparr>tr_id = PStr tid, tr_question = PStr q, tr_category = PStr cat, tr_responses = []\<rparr>"
      by simp
    have "csv_row [] (bs ! i) = Inr (join_str [TAB] (tid # cat # spaced q # []) @ [NL])"
      by (rule csv_row_strs) (simp_all add: b)
    with m b show "make_test_result (tests ! i) = Inr (bs ! i) \<and>
             tr_responses (bs ! i) = [] \<and>
             (\<exists>tid q cat. tr_id (bs ! i) = PStr tid \<and> tr_question (bs ! i) = PStr q \<and>
                tr_category (bs ! i) = PStr cat \<and>
                csv_row [] (bs ! i) = Inr (tid @ [TAB] @ cat @ [TAB] @ spaced q @ [NL]))"
      by simp
  qed
  have "\<forall>t \<in> set bs. \<exists>line. csv_row [] t = Inr line"
  proof
    fix t assume "t \<in> set bs"
    then obtain i where "i < length tests" "bs ! i = t"
      using bs(1) by (auto simp add: in_set_conv_nth)
    with each show "\<exists>line. csv_row [] t = Inr line" by blast
  qed
  then have "\<exists>rows. length rows = length bs \<and> (\<forall>i < length bs. csv_row [] (bs ! i) = Inr (rows ! i))"
    by (rule rows_exist)
  then obtain rows where rows: "length rows = length bs"
    "\<forall>i < length bs. csv_row [] (bs ! i) = Inr (rows ! i)" by blast
  from write_rows_all [OF rows, of "header_line []"]
  have "write_csv [] (res_tests ?run) = (header_line [] @ concat rows, None)"
    by (simp add: write_csv_def)
  with run_evaluation_complete [of be "[]" now d0 tests _ "header_line [] @ concat rows"] bs(3)
  have run: "run_evaluation be now tests [] d0 =
      (d0\<lparr>json_file := Some ?run, csv_file := Some (header_line [] @ concat rows)\<rparr>, Inr ?run)"
    by simp
  have d: "d0\<lparr>json_file := Some ?run, csv_file := Some (header_line [] @ concat rows)\<rparr> =
      \<lparr> json_file = Some ?run,
        csv_file = Some (concat ((''ID'' @ [TAB] @ ''Category'' @ [TAB] @ ''Question'' @ [NL]) # rows)) \<rparr>"
    by (cases d0) (simp add: header_line_def)
  have rows': "\<forall>i < length tests. make_test_result (tests ! i) = Inr (bs ! i) \<and>
             tr_responses (bs ! i) = [] \<and>
             (\<exists>tid q cat. tr_id (bs ! i) = PStr tid \<and> tr_question (bs ! i) = PStr q \<and>
                tr_category (bs ! i) = PStr cat \<and>
                rows ! i = tid @ [TAB] @ cat @ [TAB] @ spaced q @ [NL])"
  proof (intro allI impI)
    fix i assume i: "i < length tests"
    with rows(2) bs(1) have "csv_row [] (bs ! i) = Inr (rows ! i)" by simp
    with each i show "make_test_result (tests ! i) = Inr (bs ! i) \<and>
             tr_responses (bs ! i) = [] \<and>
             (\<exists>tid q cat. tr_id (bs ! i) = PStr tid \<and> tr_question (bs ! i) = PStr q \<and>
                tr_category (bs ! i) = PStr cat \<and>
                rows ! i = tid @ [TAB] @ cat @ [TAB] @ spaced q @ [NL])" by fastforce
  qed
  show ?thesis
    apply (rule exI [of _ ?run])
    apply (rule exI [of _ rows])
    apply (intro conjI)
    using run d apply simp
    apply simp
    apply simp
    using bs(1) apply simp
    using rows(1) bs(1) apply simp
    using rows' apply simp
    done
qed

text \<open>
  C3, as amended. With no test, the run completes, returns a run without bundles and
  writes the CSV file with the header row only; the JSON file is left as it was. With no
  model and at least one test, the tests being records whose id, question and category
  are strings, the run completes and returns one bundle for each test, with no response;
  the JSON file holds that run, and the CSV file the three-column header row and one row
  for each test.
\<close>

theorem degenerate_runs:
  "run_evaluation be now [] models d0 =
     (d0\<lparr>csv_file := Some (join_str [TAB] (''ID'' # ''Category'' # ''Question'' # map fst models) @ [NL])\<rparr>,
      Inr \<lparr>res_timestamp = now, res_models = map fst models, res_tests = []\<rparr>) \<and>
   ((\<forall>t \<in> set tests. \<exists>tid q cat. make_test_result t =
        Inr \<lparr>tr_id = PStr tid, tr_question = PStr q, tr_category = PStr cat, tr_responses = []\<rparr>) \<longrightarrow>
    tests \<noteq> [] \<longrightarrow>
    (\<exists>run rows. run_evaluation be now tests [] d0 =
            (\<lparr> json_file = Some run,
                csv_file = Some (concat ((''ID'' @ [TAB] @ ''Category'' @ [TAB] @ ''Question'' @ [NL]) # rows)) \<rparr>,
             Inr run) \<and>
          res_timestamp run = now \<and> res_models run = [] \<and>
          length (res_tests run) = length tests \<and> length rows = length tests \<and>
          (\<forall>i < length tests. make_test_result (tests ! i) = Inr (res_tests run ! i) \<and>
             tr_responses (res_tests run ! i) = [] \<and>
             (\<exists>tid q cat. tr_id (res_tests run ! i) = PStr tid \<and>
                tr_question (res_tests run ! i) = PStr q \<and>
                tr_category (res_tests run ! i) = PStr cat \<and>
                rows ! i = tid @ [TAB] @ cat @ [TAB] @ spaced q @ [NL]))))"
  using run_evaluation_no_tests run_evaluation_no_models by blast

theorem degenerate_runs_witness:
  "run_evaluation example_backend example_now [] example_models empty_disk =
     (\<lparr>json_file = None, csv_file = Some (spec_header @ [NL])\<rparr>,
      Inr \<lparr>res_timestamp = example_now, res_models = [''A'', ''B''], res_tests = []\<rparr>) \<and>
   (\<exists>run rows. run_evaluation example_backend example_now [PDict spec_record, PDict alias_record] []
                  empty_disk =
            (\<lparr> json_file = Some run,
                csv_file = Some (concat ((''ID'' @ [TAB] @ ''Category'' @ [TAB] @ ''Question'' @ [NL]) # rows)) \<rparr>,
             Inr run) \<and>
          length (res_tests run) = 2 \<and> length rows = 2)"
proof
  from degenerate_runs [of example_backend example_now example_models empty_disk "[]"]
  show "run_evaluation example_backend example_now [] example_models empty_disk =
     (\<lparr>json_file = None, csv_file = Some (spec_header @ [NL])\<rparr>,
      Inr \<lparr>res_timestamp = example_now, res_models = [''A'', ''B''], res_tests = []\<rparr>)"
    by (simp add: example_models_def empty_disk_def spec_header_def)
next
  have h: "\<forall>t \<in> set [PDict spec_record, PDict alias_record]. \<exists>tid q cat. make_test_result t =
        Inr \<lparr>tr_id = PStr tid, tr_question = PStr q, tr_category = PStr cat, tr_responses = []\<rparr>"
    by (simp add: make_test_result_def spec_record_def alias_record_def dict_get_def py_or_def
        py_truthy_def)
  from degenerate_runs [of example_backend example_now "[]" empty_disk
      "[PDict spec_record, PDict alias_record]"] h
  obtain run rows where
    "run_evaluation example_backend example_now [PDict spec_record, PDict alias_record] [] empty_disk =
            (\<lparr> json_file = Some run,
                csv_file = Some (concat ((''ID'' @ [TAB] @ ''Category'' @ [TAB] @ ''Question'' @ [NL]) # rows)) \<rparr>,
             Inr run)"
    "length (res_tests run) = length [PDict spec_record, PDict alias_record]"
    "length rows = length [PDict spec_record, PDict alias_record]"
    by auto
  then show "\<exists>run rows. run_evaluation example_backend example_now [PDict spec_record, PDict alias_record] []
                  empty_disk =
            (\<lparr> json_file = Some run,
                csv_file = Some (concat ((''ID'' @ [TAB] @ ''Category'' @ [TAB] @ ''Question'' @ [NL]) # rows)) \<rparr>,
             Inr run) \<and>
          length (res_tests run) = 2 \<and> length rows = 2"
    by (intro exI [of _ run] exI [of _ rows]) simp
qed

text \<open>
  C3 as stated fails. With no test and no file before the run there is no JSON file after
  it. With the spec's test case and no model the run returned has one bundle, and the CSV
  file a row beside the header.
\<close>

theorem degenerate_runs_counterexample:
  "run_evaluation example_backend example_now [] example_models empty_disk =
     (\<lparr>json_file = None, csv_file = Some (spec_header @ [NL])\<rparr>,
      Inr \<lparr>res_timestamp = example_now, res_models = [''A'', ''B''], res_tests = []\<rparr>) \<and>
   run_evaluation example_backend example_now [PDict spec_record] [] empty_disk =
     (\<lparr>json_file = Some bare_run,
        csv_file = Some (''ID'' @ [TAB] @ ''Category'' @ [TAB] @ ''Question'' @ [NL] @
                         ''t1'' @ [TAB] @ ''geo'' @ [TAB] @ ''Hva er hovedstaden i Norge?'' @ [NL])\<rparr>,
      Inr bare_run) \<and>
   res_tests bare_run \<noteq> []"
  by (simp add: run_evaluation_def initial_state_def process_test_def build_bundle_def
      make_test_result_def spec_record_def dict_get_def py_or_def py_truthy_def example_models_def
      empty_disk_def write_csv_def header_line_def csv_row_def row_cells_def replace_tab_nl_def
      replace_char_def py_join_def spec_header_def bare_run_def bare_bundle_def Let_def
      TAB_def NL_def)

subsection \<open>Cells written as they are\<close>

text \<open>
  C4 does not hold of the id and category cells: line 107 and line 108 put them in the
  row without the replacement that line 109 and line 114 apply to the question and to the
  responses. For a record whose id holds a tab and whose category holds a newline, the
  tab and the newline are in the file.
\<close>

theorem id_and_category_cells_written_raw:
  "csv_file (fst (run_evaluation example_backend example_now [PDict tab_id_record] example_models
                    empty_disk)) =
     Some (spec_header @ [NL] @
           ''t'' @ [TAB] @ ''1'' @ [TAB] @ ''geo'' @ [NL] @ ''x'' @ [TAB] @
           ''Hva er hovedstaden i Norge?'' @ [TAB] @ ''Oslo'' @ [TAB] @ ''[ERROR: refused]'' @ [NL])"
  by (simp add: run_evaluation_def initial_state_def process_test_def build_bundle_def
      make_test_result_def tab_id_record_def dict_get_def py_or_def py_truthy_def example_models_def
      query_ollama_def try_body_def get_response_def py_get_def example_backend_def empty_disk_def
      write_csv_def header_line_def csv_row_def row_cells_def response_cell_def replace_tab_nl_def
      replace_char_def py_join_def spec_header_def Let_def TAB_def NL_def)

subsection \<open>A record without a question\<close>

lemma null_question:
  assumes "\<forall>v. map_of d ''question'' = Some v \<longrightarrow> \<not> py_truthy v" and "map_of d ''q'' = None"
  shows "py_or (dict_get d ''question'' PNone) (dict_get d ''q'' PNone) = PNone"
  using assms by (cases "map_of d ''question''") (simp_all add: py_or_def dict_get_def py_truthy_def)

subsection \<open>Models that share a display name\<close>

lemma one_entry:
  "distinct (map fst r) \<Longrightarrow> n \<in> fst ` set r \<Longrightarrow> length (filter (\<lambda>p. fst p = n) r) = 1"
proof (induction r)
  case Nil
  then show ?case by simp
next
  case (Cons p r)
  show ?case
  proof (cases "fst p = n")
    case True
    with Cons.prems(1) have "n \<notin> fst ` set r" by simp
    then have "\<forall>x \<in> set r. fst x \<noteq> n" by (auto simp add: image_iff)
    then have "filter (\<lambda>p. fst p = n) r = []" by (simp add: filter_empty_conv)
    with True show ?thesis by simp
  next
    case False
    with Cons show ?thesis by auto
  qed
qed

lemma row_cells_Inr:
  assumes "row_cells names t = Inr row"
  shows "\<exists>q cs. response_cells (tr_responses t) names = Inr cs \<and>
           row = [tr_id t, tr_category t, PStr q] @ map PStr cs"
  using assms by (auto simp add: row_cells_def split: sum.splits)

text \<open>
  C10. The responses of a bundle are kept under the display names alone. For the last
  model of the list that bears a display name, the bundle holds under that name the
  response of that model, the answer to the query numbered by its place in the list, and
  holds no other entry under the name: the response of an earlier model of the same name
  is gone. In a CSV row built from the bundle, every column of a model bearing that name
  shows that one response, with tabs and newlines replaced and cut to 500 characters.
\<close>

theorem duplicate_display_names:
  assumes models: "models = ms1 @ (n, mid) # ms2" and last: "n \<notin> fst ` set ms2"
  shows "\<exists>tr. build_bundle be models cur (PDict d) = Inr (cur + length models, tr) \<and>
           map_of (tr_responses tr) n =
             Some (query_ollama (be (Suc (cur + length ms1))) mid (tr_question tr)) \<and>
           length (filter (\<lambda>p. fst p = n) (tr_responses tr)) = 1 \<and>
           (\<forall>row. row_cells (map fst models) tr = Inr row \<longrightarrow>
              (\<exists>r. query_ollama (be (Suc (cur + length ms1))) mid (tr_question tr) = PStr r \<and>
                   (\<forall>j < length models. fst (models ! j) = n \<longrightarrow>
                      row ! (3 + j) = PStr (take 500 (spaced r)))))"
proof -
  let ?q = "py_or (dict_get d ''question'' PNone) (dict_get d ''q'' PNone)"
  let ?r = "snd (query_models be ?q models cur [])"
  let ?tr = "\<lparr> tr_id = dict_get d ''id'' (PStr ''unknown''), tr_question = ?q,
            tr_category = dict_get d ''category'' (PStr ''general''), tr_responses = ?r \<rparr>"
  let ?v = "query_ollama (be (Suc (cur + length ms1))) mid ?q"
  have b: "build_bundle be models cur (PDict d) = Inr (cur + length models, ?tr)"
    by (rule build_bundle_dict)
  have kept: "map_of ?r n = Some ?v"
    unfolding models using last by (rule query_models_last)
  have "distinct (map fst ?r)" by (rule query_models_distinct) simp
  moreover have "n \<in> fst ` set ?r" by (simp add: query_models_keys models)
  ultimately have one: "length (filter (\<lambda>p. fst p = n) ?r) = 1" by (rule one_entry)
  have cells: "\<forall>row. row_cells (map fst models) ?tr = Inr row \<longrightarrow>
      (\<exists>r. ?v = PStr r \<and>
           (\<forall>j < length models. fst (models ! j) = n \<longrightarrow> row ! (3 + j) = PStr (take 500 (spaced r))))"
  proof (intro allI impI)
    fix row assume "row_cells (map fst models) ?tr = Inr row"
    from row_cells_Inr [OF this] obtain q cs where
      cs: "response_cells ?r (map fst models) = Inr cs"
      and row: "row = [tr_id ?tr, tr_category ?tr, PStr q] @ map PStr cs" by auto
    from response_cells_Inr [OF cs] have len: "length cs = length models"
      and each: "\<forall>j < length models. response_cell ?r (fst (models ! j)) = Inr (cs ! j)" by simp_all
    have cell: "\<And>j. j < length models \<Longrightarrow> fst (models ! j) = n \<Longrightarrow>
        \<exists>t. ?v = PStr t \<and> row ! (3 + j) = PStr (take 500 (spaced t))"
    proof -
      fix j assume j: "j < length models" "fst (models ! j) = n"
      with each have "response_cell ?r n = Inr (cs ! j)" by auto
      then obtain t where "dict_get ?r n (PStr []) = PStr t" "cs ! j = take 500 (spaced t)"
        by (auto simp add: response_cell_Inr)
      with kept have "?v = PStr t" by (simp add: dict_get_def)
      moreover have "row ! (3 + j) = PStr (cs ! j)"
        using row j(1) len by (simp add: nth_append numeral_3_eq_3)
      ultimately show "\<exists>t. ?v = PStr t \<and> row ! (3 + j) = PStr (take 500 (spaced t))"
        using \<open>cs ! j = take 500 (spaced t)\<close> by simp
    qed
    have "length ms1 < length models" "fst (models ! length ms1) = n"
      by (simp_all add: models)
    from cell [OF this] obtain r where r: "?v = PStr r" by blast
    have "\<forall>j < length models. fst (models ! j) = n \<longrightarrow> row ! (3 + j) = PStr (take 500 (spaced r))"
    proof (intro allI impI)
      fix j assume "j < length models" "fst (models ! j) = n"
      from cell [OF this] r show "row ! (3 + j) = PStr (take 500 (spaced r))" by auto
    qed
    with r show "\<exists>r. ?v = PStr r \<and>
           (\<forall>j < length models. fst (models ! j) = n \<longrightarrow> row ! (3 + j) = PStr (take 500 (spaced r)))"
      by blast
  qed
  show ?thesis
    apply (rule exI [of _ ?tr])
    apply (intro conjI)
    apply (rule b)
    using kept apply simp
    using one apply simp
    using cells apply simp
    done
qed

theorem duplicate_display_names_witness:
  "(\<exists>tr. build_bundle example_backend twin_models 0 (PDict spec_record) = Inr (2, tr) \<and>
      map_of (tr_responses tr) ''A'' = Some (PStr ''[ERROR: refused]'') \<and>
      length (filter (\<lambda>p. fst p = ''A'') (tr_responses tr)) = 1) \<and>
   csv_file (fst (run_evaluation example_backend example_now [PDict spec_record] twin_models
                    empty_disk)) =
     Some (''ID'' @ [TAB] @ ''Category'' @ [TAB] @ ''Question'' @ [TAB] @ ''A'' @ [TAB] @ ''A'' @ [NL] @
           ''t1'' @ [TAB] @ ''geo'' @ [TAB] @ ''Hva er hovedstaden i Norge?'' @ [TAB] @
           ''[ERROR: refused]'' @ [TAB] @ ''[ERROR: refused]'' @ [NL])"
proof
  have h1: "twin_models = [(''A'', ''a-id'')] @ (''A'', ''b-id'') # []" by (simp add: twin_models_def)
  have h2: "''A'' \<notin> fst ` set ([] :: (string \<times> string) list)" by simp
  from duplicate_display_names [OF h1 h2, of example_backend 0 spec_record]
  obtain tr where w: "build_bundle example_backend twin_models 0 (PDict spec_record) =
      Inr (0 + length twin_models, tr)"
    "map_of (tr_responses tr) ''A'' =
       Some (query_ollama (example_backend (Suc (0 + length [(''A'', ''a-id'')]))) ''b-id'' (tr_question tr))"
    "length (filter (\<lambda>p. fst p = ''A'') (tr_responses tr)) = 1"
    by blast
  have "query_ollama (example_backend (Suc (0 + length [(''A'', ''a-id'')]))) ''b-id'' (tr_question tr) =
      PStr ''[ERROR: refused]''"
    by (simp add: query_ollama_def try_body_def example_backend_def)
  with w show "\<exists>tr. build_bundle example_backend twin_models 0 (PDict spec_record) = Inr (2, tr) \<and>
      map_of (tr_responses tr) ''A'' = Some (PStr ''[ERROR: refused]'') \<and>
      length (filter (\<lambda>p. fst p = ''A'') (tr_responses tr)) = 1"
    by (intro exI [of _ tr]) (simp add: twin_models_def)
next
  show "csv_file (fst (run_evaluation example_backend example_now [PDict spec_record] twin_models
                    empty_disk)) =
     Some (''ID'' @ [TAB] @ ''Category'' @ [TAB] @ ''Question'' @ [TAB] @ ''A'' @ [TAB] @ ''A'' @ [NL] @
           ''t1'' @ [TAB] @ ''geo'' @ [TAB] @ ''Hva er hovedstaden i Norge?'' @ [TAB] @
           ''[ERROR: refused]'' @ [TAB] @ ''[ERROR: refused]'' @ [NL])"
    by (simp add: run_evaluation_def initial_state_def process_test_def build_bundle_def
      make_test_result_def spec_record_def dict_get_def py_or_def py_truthy_def twin_models_def
      query_ollama_def try_body_def get_response_def py_get_def example_backend_def empty_disk_def
      write_csv_def header_line_def csv_row_def row_cells_def response_cell_def replace_tab_nl_def
      replace_char_def py_join_def Let_def TAB_def NL_def)
qed

subsection \<open>The shape of the table\<close>

lemma query_models_strs:
  assumes "\<forall>k mid. is_str (query_ollama (be k) mid q)" and "\<forall>p \<in> set r. is_str (snd p)"
  shows "\<forall>p \<in> set (snd (query_models be q ms cur r)). is_str (snd p)"
  using assms
proof (induction be q ms cur r rule: query_models.induct)
  case (1 be q cur resps)
  then show ?case by simp
next
  case (2 be q model_name model_id ms cur resps)
  have "is_str (query_ollama (be (Suc cur)) model_id q)"
    using "2.prems"(1) by simp
  with "2.prems"(2)
  have "\<forall>p \<in> set (AList.update model_name (query_ollama (be (Suc cur)) model_id q) resps).
          is_str (snd p)"
    by (induction resps) auto
  with "2.IH" "2.prems"(1) show ?case by simp
qed

lemma build_bundle_strs:
  assumes "build_bundle be ms cur t = Inr (c, tr)" and "\<forall>k mid q. is_str (query_ollama (be k) mid q)"
  shows "\<forall>p \<in> set (tr_responses tr). is_str (snd p)"
proof (cases "is_dict t")
  case False
  with assms show ?thesis by (simp add: build_bundle_not_dict)
next
  case True
  then obtain d where "t = PDict d" by (cases t) (simp_all add: is_dict_def)
  with assms(1) have "tr_responses tr =
      snd (query_models be (py_or (dict_get d ''question'' PNone) (dict_get d ''q'' PNone)) ms cur [])"
    by (auto simp add: build_bundle_dict)
  moreover have "\<forall>p \<in> set (snd (query_models be (py_or (dict_get d ''question'' PNone) (dict_get d ''q'' PNone)) ms cur [])). is_str (snd p)"
    by (rule query_models_strs) (simp_all add: assms(2))
  ultimately show ?thesis by simp
qed

lemma response_cell_strs:
  assumes "\<forall>p \<in> set r. is_str (snd p)"
  shows "\<exists>c. response_cell r n = Inr c"
proof -
  have "is_str (dict_get r n (PStr []))"
  proof (cases "map_of r n")
    case None
    then show ?thesis by (simp add: dict_get_def is_str_def)
  next
    case (Some v)
    then have "(n, v) \<in> set r" by (rule map_of_SomeD)
    with assms have "is_str v" by auto
    with Some show ?thesis by (simp add: dict_get_def)
  qed
  then obtain s where "dict_get r n (PStr []) = PStr s"
    by (cases "dict_get r n (PStr [])") (simp_all add: is_str_def)
  then show ?thesis by (simp add: response_cell_Inr)
qed

lemma last_model:
  assumes "n \<in> fst ` set models"
  shows "\<exists>ms1 mid ms2. models = ms1 @ (n, mid) # ms2 \<and> n \<notin> fst ` set ms2"
proof -
  from assms have "\<exists>p \<in> set models. fst p = n" by auto
  from split_list_last_prop [OF this] obtain ms1 p ms2 where
    "models = ms1 @ p # ms2" "fst p = n" "\<forall>z \<in> set ms2. fst z \<noteq> n" by blast
  then have "models = ms1 @ (n, snd p) # ms2 \<and> n \<notin> fst ` set ms2" by auto
  then show ?thesis by blast
qed

lemma distinct_place:
  assumes "models = ms1 @ (n, mid) # ms2" and "j < length models" and "fst (models ! j) = n"
    and "distinct (map fst models)"
  shows "length ms1 = j"
proof -
  have "length ms1 < length (map fst models)" "j < length (map fst models)"
    using assms(1,2) by simp_all
  moreover have "map fst models ! length ms1 = n"
    unfolding assms(1) by (simp add: nth_append)
  moreover have "map fst models ! j = n"
    using assms(2,3) by simp
  ultimately show ?thesis
    using nth_eq_iff_index_eq [OF assms(4), of "length ms1" j] by simp
qed

lemma typed_bundle_row:
  assumes t: "make_test_result t =
      Inr \<lparr>tr_id = PStr tid, tr_question = PStr q, tr_category = PStr cat, tr_responses = []\<rparr>"
    and strs: "\<forall>k mid q. is_str (query_ollama (be k) mid q)"
    and b: "build_bundle be models cur t = Inr (c, tr)"
  shows "tr_id tr = PStr tid \<and> tr_question tr = PStr q \<and> tr_category tr = PStr cat \<and>
    (\<exists>cells. response_cells (tr_responses tr) (map fst models) = Inr cells \<and>
       csv_row (map fst models) tr = Inr (join_str [TAB] (tid # cat # spaced q # cells) @ [NL]))"
proof -
  from build_bundle_fields [OF b] t
  have f: "tr\<lparr>tr_responses := []\<rparr> =
      \<lparr>tr_id = PStr tid, tr_question = PStr q, tr_category = PStr cat, tr_responses = []\<rparr>" by simp
  have i: "tr_id tr = PStr tid" using arg_cong [OF f, of tr_id] by simp
  have qq: "tr_question tr = PStr q" using arg_cong [OF f, of tr_question] by simp
  have ct: "tr_category tr = PStr cat" using arg_cong [OF f, of tr_category] by simp
  from build_bundle_strs [OF b strs] have "\<forall>p \<in> set (tr_responses tr). is_str (snd p)" .
  then have "\<forall>n \<in> set (map fst models). \<exists>c. response_cell (tr_responses tr) n = Inr c"
    by (simp add: response_cell_strs)
  from response_cells_total [OF this] obtain cells where
    cells: "response_cells (tr_responses tr) (map fst models) = Inr cells" by blast
  from csv_row_strs [OF i ct qq cells] cells i qq ct show ?thesis by blast
qed


lemma typed_run_rows:
  assumes typed: "\<forall>t \<in> set tests. \<exists>tid q cat. make_test_result t =
        Inr \<lparr>tr_id = PStr tid, tr_question = PStr q, tr_category = PStr cat, tr_responses = []\<rparr>"
    and strs: "\<forall>k mid q. is_str (query_ollama (be k) mid q)"
  shows "\<exists>d' run rows.
      run_evaluation be now tests models d0 = (d', Inr run) \<and>
      csv_file d' = Some (concat ((join_str [TAB] (''ID'' # ''Category'' # ''Question'' #
                                     map fst models) @ [NL]) # rows)) \<and>
      length (res_tests run) = length tests \<and> length rows = length tests \<and>
      (\<forall>i < length tests. \<exists>tid cat q cells.
         make_test_result (tests ! i) =
           Inr \<lparr>tr_id = PStr tid, tr_question = PStr q, tr_category = PStr cat, tr_responses = []\<rparr> \<and>
         tr_id (res_tests run ! i) = PStr tid \<and> tr_category (res_tests run ! i) = PStr cat \<and>
         tr_question (res_tests run ! i) = PStr q \<and>
         rows ! i = join_str [TAB] (tid # cat # spaced q # cells) @ [NL] \<and>
         length cells = length models \<and>
         (\<forall>j < length models. \<exists>ms1 mid ms2 r.
            models = ms1 @ (fst (models ! j), mid) # ms2 \<and> fst (models ! j) \<notin> fst ` set ms2 \<and>
            (distinct (map fst models) \<longrightarrow> length ms1 = j) \<and>
            query_ollama (be (Suc (i * length models + length ms1))) mid (PStr q) = PStr r \<and>
            map_of (tr_responses (res_tests run ! i)) (fst (models ! j)) = Some (PStr r) \<and>
            cells ! j = take 500 (spaced r) \<and> length (cells ! j) \<le> 500 \<and>
            TAB \<notin> set (cells ! j) \<and> NL \<notin> set (cells ! j)))"
proof -
  let ?names = "map fst models"
  let ?M = "length models"
  from typed have "\<forall>t \<in> set tests. is_dict t" by (blast intro: make_test_result_Inr_dict)
  from complete_run [OF this, of be models now d0] obtain bs where
    bs: "length bs = length tests"
      "\<forall>i < length tests. build_bundle be models (i * ?M) (tests ! i) = Inr (Suc i * ?M, bs ! i)"
      "run_tests be models (initial_state now models d0) tests =
             (\<lparr> results = \<lparr>res_timestamp = now, res_models = ?names, res_tests = bs\<rparr>,
                files = (if tests = [] then d0
                         else d0\<lparr>json_file := Some \<lparr>res_timestamp = now, res_models = ?names,
                                                    res_tests = bs\<rparr>\<rparr>),
                current = length tests * ?M \<rparr>, None)"
    by blast
  let ?run = "\<lparr>res_timestamp = now, res_models = ?names, res_tests = bs\<rparr>"
  let ?f = "if tests = [] then d0 else d0\<lparr>json_file := Some ?run\<rparr>"
  have row: "\<And>i. i < length tests \<Longrightarrow> \<exists>tid cat q cells.
         make_test_result (tests ! i) =
           Inr \<lparr>tr_id = PStr tid, tr_question = PStr q, tr_category = PStr cat, tr_responses = []\<rparr> \<and>
         tr_id (bs ! i) = PStr tid \<and> tr_category (bs ! i) = PStr cat \<and>
         tr_question (bs ! i) = PStr q \<and>
         response_cells (tr_responses (bs ! i)) ?names = Inr cells \<and>
         csv_row ?names (bs ! i) = Inr (join_str [TAB] (tid # cat # spaced q # cells) @ [NL])"
  proof -
    fix i assume i: "i < length tests"
    with typed obtain tid q cat where m: "make_test_result (tests ! i) =
        Inr \<lparr>tr_id = PStr tid, tr_question = PStr q, tr_category = PStr cat, tr_responses = []\<rparr>"
      by (metis nth_mem)
    from bs(2) i have b: "build_bundle be models (i * ?M) (tests ! i) = Inr (Suc i * ?M, bs ! i)"
      by simp
    from typed_bundle_row [OF m strs b] m
    show "\<exists>tid cat q cells.
         make_test_result (tests ! i) =
           Inr \<lparr>tr_id = PStr tid, tr_question = PStr q, tr_category = PStr cat, tr_responses = []\<rparr> \<and>
         tr_id (bs ! i) = PStr tid \<and> tr_category (bs ! i) = PStr cat \<and>
         tr_question (bs ! i) = PStr q \<and>
         response_cells (tr_responses (bs ! i)) ?names = Inr cells \<and>
         csv_row ?names (bs ! i) = Inr (join_str [TAB] (tid # cat # spaced q # cells) @ [NL])"
      by blast
  qed
  have "\<forall>t \<in> set bs. \<exists>line. csv_row ?names t = Inr line"
  proof
    fix t assume "t \<in> set bs"
    then obtain i where "i < length tests" "bs ! i = t"
      using bs(1) by (auto simp add: in_set_conv_nth)
    with row [of i] show "\<exists>line. csv_row ?names t = Inr line" by blast
  qed
  from rows_exist [OF this] obtain rows where rows: "length rows = length bs"
    "\<forall>i < length bs. csv_row ?names (bs ! i) = Inr (rows ! i)" by blast
  from write_rows_all [OF rows, of "header_line ?names"]
  have "write_csv ?names (res_tests ?run) = (header_line ?names @ concat rows, None)"
    by (simp add: write_csv_def)
  with run_evaluation_complete [of be models now d0 tests _ "header_line ?names @ concat rows"] bs(3)
  have run: "run_evaluation be now tests models d0 =
      (?f\<lparr>csv_file := Some (header_line ?names @ concat rows)\<rparr>, Inr ?run)"
    by simp
  have csv: "csv_file (?f\<lparr>csv_file := Some (header_line ?names @ concat rows)\<rparr>) =
      Some (concat ((join_str [TAB] (''ID'' # ''Category'' # ''Question'' # ?names) @ [NL]) # rows))"
    by (simp add: header_line_columns)
  have each: "\<forall>i < length tests. \<exists>tid cat q cells.
         make_test_result (tests ! i) =
           Inr \<lparr>tr_id = PStr tid, tr_question = PStr q, tr_category = PStr cat, tr_responses = []\<rparr> \<and>
         tr_id (bs ! i) = PStr tid \<and> tr_category (bs ! i) = PStr cat \<and>
         tr_question (bs ! i) = PStr q \<and>
         rows ! i = join_str [TAB] (tid # cat # spaced q # cells) @ [NL] \<and>
         length cells = ?M \<and>
         (\<forall>j < ?M. \<exists>ms1 mid ms2 r.
            models = ms1 @ (fst (models ! j), mid) # ms2 \<and> fst (models ! j) \<notin> fst ` set ms2 \<and>
            (distinct (map fst models) \<longrightarrow> length ms1 = j) \<and>
            query_ollama (be (Suc (i * ?M + length ms1))) mid (PStr q) = PStr r \<and>
            map_of (tr_responses (bs ! i)) (fst (models ! j)) = Some (PStr r) \<and>
            cells ! j = take 500 (spaced r) \<and> length (cells ! j) \<le> 500 \<and>
            TAB \<notin> set (cells ! j) \<and> NL \<notin> set (cells ! j))"
  proof (intro allI impI)
    fix i assume i: "i < length tests"
    from row [OF i] obtain tid cat q cells where
      r: "make_test_result (tests ! i) =
           Inr \<lparr>tr_id = PStr tid, tr_question = PStr q, tr_category = PStr cat, tr_responses = []\<rparr>"
        "tr_id (bs ! i) = PStr tid" "tr_category (bs ! i) = PStr cat" "tr_question (bs ! i) = PStr q"
        "response_cells (tr_responses (bs ! i)) ?names = Inr cells"
        "csv_row ?names (bs ! i) = Inr (join_str [TAB] (tid # cat # spaced q # cells) @ [NL])"
      by blast
    from bs(2) i have b: "build_bundle be models (i * ?M) (tests ! i) = Inr (Suc i * ?M, bs ! i)"
      by simp
    from rows(2) i bs(1) r(6) have line: "rows ! i = join_str [TAB] (tid # cat # spaced q # cells) @ [NL]"
      by simp
    from bundle_cells [OF b r(5)] have len: "length cells = ?M"
      and cs: "\<forall>j < ?M. \<exists>r. map_of (tr_responses (bs ! i)) (fst (models ! j)) = Some (PStr r) \<and>
            cells ! j = take 500 (spaced r) \<and> length (cells ! j) \<le> 500 \<and>
            TAB \<notin> set (cells ! j) \<and> NL \<notin> set (cells ! j)" by simp_all
    have cols: "\<forall>j < ?M. \<exists>ms1 mid ms2 r.
            models = ms1 @ (fst (models ! j), mid) # ms2 \<and> fst (models ! j) \<notin> fst ` set ms2 \<and>
            (distinct (map fst models) \<longrightarrow> length ms1 = j) \<and>
            query_ollama (be (Suc (i * ?M + length ms1))) mid (PStr q) = PStr r \<and>
            map_of (tr_responses (bs ! i)) (fst (models ! j)) = Some (PStr r) \<and>
            cells ! j = take 500 (spaced r) \<and> length (cells ! j) \<le> 500 \<and>
            TAB \<notin> set (cells ! j) \<and> NL \<notin> set (cells ! j)"
    proof (intro allI impI)
      fix j assume j: "j < ?M"
      then have "fst (models ! j) \<in> fst ` set models" by simp
      from last_model [OF this] obtain ms1 mid ms2 where
        m: "models = ms1 @ (fst (models ! j), mid) # ms2" and l: "fst (models ! j) \<notin> fst ` set ms2"
        by blast
      from build_bundle_kept [OF b m l] r(4)
      have k: "map_of (tr_responses (bs ! i)) (fst (models ! j)) =
          Some (query_ollama (be (Suc (i * ?M + length ms1))) mid (PStr q))" by simp
      from cs j obtain x where x: "map_of (tr_responses (bs ! i)) (fst (models ! j)) = Some (PStr x)"
        "cells ! j = take 500 (spaced x)" "length (cells ! j) \<le> 500"
        "TAB \<notin> set (cells ! j)" "NL \<notin> set (cells ! j)" by blast
      from k x(1) have qx: "query_ollama (be (Suc (i * ?M + length ms1))) mid (PStr q) = PStr x"
        by simp
      have d: "distinct (map fst models) \<longrightarrow> length ms1 = j"
        using distinct_place [OF m j] by simp
      from m l d qx x show "\<exists>ms1 mid ms2 r.
            models = ms1 @ (fst (models ! j), mid) # ms2 \<and> fst (models ! j) \<notin> fst ` set ms2 \<and>
            (distinct (map fst models) \<longrightarrow> length ms1 = j) \<and>
            query_ollama (be (Suc (i * ?M + length ms1))) mid (PStr q) = PStr r \<and>
            map_of (tr_responses (bs ! i)) (fst (models ! j)) = Some (PStr r) \<and>
            cells ! j = take 500 (spaced r) \<and> length (cells ! j) \<le> 500 \<and>
            TAB \<notin> set (cells ! j) \<and> NL \<notin> set (cells ! j)"
        by (intro exI [of _ ms1] exI [of _ mid] exI [of _ ms2] exI [of _ x]) simp
    qed
    from r(1,2,3,4) line len cols
    show "\<exists>tid cat q cells.
         make_test_result (tests ! i) =
           Inr \<lparr>tr_id = PStr tid, tr_question = PStr q, tr_category = PStr cat, tr_responses = []\<rparr> \<and>
         tr_id (bs ! i) = PStr tid \<and> tr_category (bs ! i) = PStr cat \<and>
         tr_question (bs ! i) = PStr q \<and>
         rows ! i = join_str [TAB] (tid # cat # spaced q # cells) @ [NL] \<and>
         length cells = ?M \<and>
         (\<forall>j < ?M. \<exists>ms1 mid ms2 r.
            models = ms1 @ (fst (models ! j), mid) # ms2 \<and> fst (models ! j) \<notin> fst ` set ms2 \<and>
            (distinct (map fst models) \<longrightarrow> length ms1 = j) \<and>
            query_ollama (be (Suc (i * ?M + length ms1))) mid (PStr q) = PStr r \<and>
            map_of (tr_responses (bs ! i)) (fst (models ! j)) = Some (PStr r) \<and>
            cells ! j = take 500 (spaced r) \<and> length (cells ! j) \<le> 500 \<and>
            TAB \<notin> set (cells ! j) \<and> NL \<notin> set (cells ! j))"
      by (intro exI [of _ tid] exI [of _ cat] exI [of _ q] exI [of _ cells]) simp
  qed
  show ?thesis
    apply (rule exI [of _ "?f\<lparr>csv_file := Some (header_line ?names @ concat rows)\<rparr>"])
    apply (rule exI [of _ ?run])
    apply (rule exI [of _ rows])
    apply (intro conjI)
    apply (rule run)
    apply (rule csv)
    using bs(1) apply simp
    using rows(1) bs(1) apply simp
    using each apply simp
    done
qed


text \<open>
  C5. Let the test cases be records whose id, question and category are strings and let
  the responses be strings, as the data model has them. The run completes, and the CSV
  file is the header row, the tab-joined \<^verbatim>\<open>ID\<close>, \<^verbatim>\<open>Category\<close>, \<^verbatim>\<open>Question\<close> and the
  display names of the models in run order, followed by one row for each test case in run
  order. A row is the tab-joined id, category, question with tabs and newlines replaced by
  spaces, and one cell for each model. The cell of a model is the response that
  \<^verbatim>\<open>query_ollama\<close> returned for the last model bearing its display name, the model
  itself when the display names are distinct, with every tab and newline replaced by a
  space and cut to its first 500 characters: it has at most 500 characters and neither a
  tab nor a newline. For the spec's example the data row is the row the spec gives.
\<close>

theorem csv_export_shape:
  assumes typed: "\<forall>t \<in> set tests. \<exists>tid q cat. make_test_result t =
        Inr \<lparr>tr_id = PStr tid, tr_question = PStr q, tr_category = PStr cat, tr_responses = []\<rparr>"
    and strs: "\<forall>k mid q. is_str (query_ollama (be k) mid q)"
  shows "(\<exists>d' run rows.
      run_evaluation be now tests models d0 = (d', Inr run) \<and>
      csv_file d' = Some (concat ((join_str [TAB] (''ID'' # ''Category'' # ''Question'' #
                                     map fst models) @ [NL]) # rows)) \<and>
      length (res_tests run) = length tests \<and> length rows = length tests \<and>
      (\<forall>i < length tests. \<exists>tid cat q cells.
         make_test_result (tests ! i) =
           Inr \<lparr>tr_id = PStr tid, tr_question = PStr q, tr_category = PStr cat, tr_responses = []\<rparr> \<and>
         tr_id (res_tests run ! i) = PStr tid \<and> tr_category (res_tests run ! i) = PStr cat \<and>
         tr_question (res_tests run ! i) = PStr q \<and>
         rows ! i = join_str [TAB] (tid # cat # spaced q # cells) @ [NL] \<and>
         length cells = length models \<and>
         (\<forall>j < length models. \<exists>ms1 mid ms2 r.
            models = ms1 @ (fst (models ! j), mid) # ms2 \<and> fst (models ! j) \<notin> fst ` set ms2 \<and>
            (distinct (map fst models) \<longrightarrow> length ms1 = j) \<and>
            query_ollama (be (Suc (i * length models + length ms1))) mid (PStr q) = PStr r \<and>
            map_of (tr_responses (res_tests run ! i)) (fst (models ! j)) = Some (PStr r) \<and>
            cells ! j = take 500 (spaced r) \<and> length (cells ! j) \<le> 500 \<and>
            TAB \<notin> set (cells ! j) \<and> NL \<notin> set (cells ! j)))) \<and>
   csv_file (fst (run_evaluation example_backend example_now [PDict spec_record] example_models
                    empty_disk)) = Some (spec_header @ [NL] @ spec_row @ [NL])"
proof
  show "csv_file (fst (run_evaluation example_backend example_now [PDict spec_record] example_models
                    empty_disk)) = Some (spec_header @ [NL] @ spec_row @ [NL])"
    by (simp only: spec_example_run fst_conv disk.simps)
qed (rule typed_run_rows [OF typed strs])

lemma long_cell: "take 500 (spaced long_response) = ''a b '' @ replicate 496 CHR ''x''"
  by (simp add: spaced_def long_response_def TAB_def NL_def)

lemma long_reply: "query_ollama (long_backend k) mid p = PStr long_response"
  by (simp add: query_ollama_def try_body_def get_response_def py_get_def dict_get_def
      long_backend_def)

theorem csv_export_shape_witness:
  "csv_file (fst (run_evaluation long_backend example_now [PDict tab_question_record]
                    example_models empty_disk)) =
     Some (spec_header @ [NL] @
           ''t9'' @ [TAB] @ ''general'' @ [TAB] @ ''Hva er det?'' @ [TAB] @
           ''a b '' @ replicate 496 CHR ''x'' @ [TAB] @ ''a b '' @ replicate 496 CHR ''x'' @ [NL])"
proof -
  let ?tests = "[PDict tab_question_record]"
  have h1: "\<forall>t \<in> set ?tests. \<exists>tid q cat. make_test_result t =
        Inr \<lparr>tr_id = PStr tid, tr_question = PStr q, tr_category = PStr cat, tr_responses = []\<rparr>"
    by (simp add: make_test_result_def tab_question_record_def dict_get_def py_or_def py_truthy_def)
  have h2: "\<forall>k mid q. is_str (query_ollama (long_backend k) mid q)"
    by (simp add: long_reply is_str_def)
  from csv_export_shape [OF h1 h2, of example_now example_models empty_disk]
  obtain d' run rows where w:
    "run_evaluation long_backend example_now ?tests example_models empty_disk = (d', Inr run)"
    "csv_file d' = Some (concat ((join_str [TAB] (''ID'' # ''Category'' # ''Question'' #
                                     map fst example_models) @ [NL]) # rows))"
    "length rows = length ?tests"
    "\<forall>i < length ?tests. \<exists>tid cat q cells.
         make_test_result (?tests ! i) =
           Inr \<lparr>tr_id = PStr tid, tr_question = PStr q, tr_category = PStr cat, tr_responses = []\<rparr> \<and>
         tr_id (res_tests run ! i) = PStr tid \<and> tr_category (res_tests run ! i) = PStr cat \<and>
         tr_question (res_tests run ! i) = PStr q \<and>
         rows ! i = join_str [TAB] (tid # cat # spaced q # cells) @ [NL] \<and>
         length cells = length example_models \<and>
         (\<forall>j < length example_models. \<exists>ms1 mid ms2 r.
            example_models = ms1 @ (fst (example_models ! j), mid) # ms2 \<and>
            fst (example_models ! j) \<notin> fst ` set ms2 \<and>
            (distinct (map fst example_models) \<longrightarrow> length ms1 = j) \<and>
            query_ollama (long_backend (Suc (i * length example_models + length ms1))) mid (PStr q) =
              PStr r \<and>
            map_of (tr_responses (res_tests run ! i)) (fst (example_models ! j)) = Some (PStr r) \<and>
            cells ! j = take 500 (spaced r) \<and> length (cells ! j) \<le> 500 \<and>
            TAB \<notin> set (cells ! j) \<and> NL \<notin> set (cells ! j))"
    by (elim conjE exE) (rule that, assumption+)
  have z: "0 < length ?tests" by simp
  from w(4) [rule_format, OF z] obtain tid cat q cells where r:
    "make_test_result (?tests ! 0) =
           Inr \<lparr>tr_id = PStr tid, tr_question = PStr q, tr_category = PStr cat, tr_responses = []\<rparr>"
    "tr_id (res_tests run ! 0) = PStr tid" "tr_category (res_tests run ! 0) = PStr cat"
    "tr_question (res_tests run ! 0) = PStr q"
    "rows ! 0 = join_str [TAB] (tid # cat # spaced q # cells) @ [NL]"
    "length cells = length example_models"
    "\<forall>j < length example_models. \<exists>ms1 mid ms2 r.
            example_models = ms1 @ (fst (example_models ! j), mid) # ms2 \<and>
            fst (example_models ! j) \<notin> fst ` set ms2 \<and>
            (distinct (map fst example_models) \<longrightarrow> length ms1 = j) \<and>
            query_ollama (long_backend (Suc (0 * length example_models + length ms1))) mid (PStr q) =
              PStr r \<and>
            map_of (tr_responses (res_tests run ! 0)) (fst (example_models ! j)) = Some (PStr r) \<and>
            cells ! j = take 500 (spaced r) \<and> length (cells ! j) \<le> 500 \<and>
            TAB \<notin> set (cells ! j) \<and> NL \<notin> set (cells ! j)"
    by (elim conjE exE) (rule that, assumption+)
  from r(1) have f: "tid = ''t9''" "cat = ''general''" "q = ''Hva'' @ [TAB] @ ''er'' @ [NL] @ ''det?''"
    by (simp_all add: make_test_result_def tab_question_record_def dict_get_def py_or_def py_truthy_def)
  have c: "\<forall>j < length example_models. cells ! j = ''a b '' @ replicate 496 CHR ''x''"
  proof (intro allI impI)
    fix j assume j: "j < length example_models"
    from r(7) [rule_format, OF j] obtain ms1 :: "(string \<times> string) list" and mid x where
      "query_ollama (long_backend (Suc (0 * length example_models + length ms1))) mid (PStr q) = PStr x"
      "cells ! j = take 500 (spaced x)"
      by (elim conjE exE) (rule that, assumption+)
    then show "cells ! j = ''a b '' @ replicate 496 CHR ''x''"
      by (simp add: long_reply long_cell)
  qed
  have "cells = [cells ! 0, cells ! 1]"
    using r(6) by (cases cells; cases "tl cells") (auto simp add: example_models_def)
  with c have cells: "cells = [''a b '' @ replicate 496 CHR ''x'', ''a b '' @ replicate 496 CHR ''x'']"
    by (simp add: example_models_def)
  have "rows = [rows ! 0]" using w(3) by (cases rows) auto
  with r(5) f cells have rows: "rows = [''t9'' @ [TAB] @ ''general'' @ [TAB] @ ''Hva er det?'' @ [TAB] @
           ''a b '' @ replicate 496 CHR ''x'' @ [TAB] @ ''a b '' @ replicate 496 CHR ''x'' @ [NL]]"
    by (simp add: spaced_def TAB_def NL_def)
  from w(1,2) show ?thesis
    by (simp add: rows example_models_def spec_header_def)
qed

subsection \<open>The export of a record without a question\<close>

text \<open>
  C9, as amended. Let one test be a record with no \<^verbatim>\<open>q\<close> field and with no
  \<^verbatim>\<open>question\<close> field or an empty one, the tests before it records whose id, question
  and category are strings, the tests after it records, and the responses strings. The
  loop over the tests completes: every model is queried for every test with the question
  of its bundle, \<^verbatim>\<open>None\<close> for that record, the JSON file holds a bundle for every test
  with the response of every model, and the bundle of that record has the question
  \<^verbatim>\<open>None\<close>. The export then raises \<^verbatim>\<open>AttributeError\<close> on \<^verbatim>\<open>None.replace\<close>. The CSV
  file has been opened and written by then: it is left with the header row and the rows of
  the bundles before that one.
\<close>

theorem null_question_aborts_export:
  assumes typed: "\<forall>t \<in> set pre. \<exists>tid q cat. make_test_result t =
        Inr \<lparr>tr_id = PStr tid, tr_question = PStr q, tr_category = PStr cat, tr_responses = []\<rparr>"
    and records: "\<forall>t \<in> set post. is_dict t"
    and noq: "\<forall>v. map_of d ''question'' = Some v \<longrightarrow> \<not> py_truthy v"
    and noalias: "map_of d ''q'' = None"
    and strs: "\<forall>k mid q. is_str (query_ollama (be k) mid q)"
  shows "\<exists>st snap rows.
     run_tests be models (initial_state now models d0) (pre @ PDict d # post) = (st, None) \<and>
     current st = length (pre @ PDict d # post) * length models \<and>
     results st = snap \<and>
     run_evaluation be now (pre @ PDict d # post) models d0 =
       (\<lparr> json_file = Some snap,
           csv_file = Some (concat ((join_str [TAB] (''ID'' # ''Category'' # ''Question'' #
                                       map fst models) @ [NL]) # rows)) \<rparr>,
        Inl (AttributeError ''NoneType'' ''replace'')) \<and>
     length (res_tests snap) = length (pre @ PDict d # post) \<and>
     tr_question (res_tests snap ! length pre) = PNone \<and>
     (\<forall>b \<in> set (res_tests snap). fst ` set (tr_responses b) = fst ` set models) \<and>
     (\<forall>i < length (pre @ PDict d # post). \<forall>ms1 n mid ms2.
        models = ms1 @ (n, mid) # ms2 \<longrightarrow> n \<notin> fst ` set ms2 \<longrightarrow>
        map_of (tr_responses (res_tests snap ! i)) n =
          Some (query_ollama (be (Suc (i * length models + length ms1))) mid
                  (tr_question (res_tests snap ! i)))) \<and>
     length rows = length pre \<and>
     (\<forall>i < length pre. csv_row (map fst models) (res_tests snap ! i) = Inr (rows ! i))"
proof -
  let ?tests = "pre @ PDict d # post"
  let ?n = "length pre"
  let ?names = "map fst models"
  have ne: "?tests \<noteq> []" by simp
  from typed have "\<forall>t \<in> set pre. is_dict t" by (blast intro: make_test_result_Inr_dict)
  moreover have "is_dict (PDict d)" by (simp add: is_dict_def)
  ultimately have dicts: "\<forall>t \<in> set ?tests. is_dict t" using records by auto
  from complete_run [OF dicts, of be models now d0] ne obtain bs where
    bs: "length bs = length ?tests"
      "\<forall>i < length ?tests. build_bundle be models (i * length models) (?tests ! i) =
                               Inr (Suc i * length models, bs ! i)"
      "run_tests be models (initial_state now models d0) ?tests =
             (\<lparr> results = \<lparr>res_timestamp = now, res_models = ?names, res_tests = bs\<rparr>,
                files = d0\<lparr>json_file := Some \<lparr>res_timestamp = now, res_models = ?names,
                                                res_tests = bs\<rparr>\<rparr>,
                current = length ?tests * length models \<rparr>, None)"
    by auto
  let ?snap = "\<lparr>res_timestamp = now, res_models = ?names, res_tests = bs\<rparr>"
  let ?st = "\<lparr> results = ?snap, files = d0\<lparr>json_file := Some ?snap\<rparr>,
              current = length ?tests * length models \<rparr>"
  have n: "?n < length bs" using bs(1) by simp
  from bs(2) have "build_bundle be models (?n * length models) (PDict d) =
      Inr (Suc ?n * length models, bs ! ?n)"
    by (metis length_append_singleton less_Suc_eq_le linorder_not_less nth_append_length
        length_append length_Cons add_Suc_right le_add1 not_less_eq_eq)
  then obtain x where x: "bs ! ?n = x"
    "build_bundle be models (?n * length models) (PDict d) = Inr (Suc ?n * length models, x)"
    by simp
  from x(2) have "tr_question x = PNone"
    by (auto simp add: build_bundle_dict null_question [OF noq noalias])
  with x(1) have q: "tr_question (bs ! ?n) = PNone" by simp
  then have stop: "csv_row ?names (bs ! ?n) = Inl (AttributeError ''NoneType'' ''replace'')"
    by (rule csv_row_null_question)
  have "\<forall>t \<in> set (take ?n bs). \<exists>line. csv_row ?names t = Inr line"
  proof
    fix t assume "t \<in> set (take ?n bs)"
    then obtain i where i: "i < ?n" "take ?n bs ! i = t"
      by (auto simp add: in_set_conv_nth)
    then have t: "bs ! i = t" by simp
    from i(1) bs(2) have "build_bundle be models (i * length models) (pre ! i) =
        Inr (Suc i * length models, bs ! i)"
      by (metis length_append nth_append trans_less_add1)
    then have b: "build_bundle be models (i * length models) (pre ! i) =
        Inr (Suc i * length models, t)" using t by simp
    from typed i(1) obtain tid q cat where "make_test_result (pre ! i) =
        Inr \<lparr>tr_id = PStr tid, tr_question = PStr q, tr_category = PStr cat, tr_responses = []\<rparr>"
      by (metis nth_mem)
    from typed_bundle_row [OF this strs b] show "\<exists>line. csv_row ?names t = Inr line" by blast
  qed
  from rows_exist [OF this] n obtain rows where
    rows: "length rows = ?n" "\<forall>i < ?n. csv_row ?names (bs ! i) = Inr (rows ! i)"
    by auto
  have split: "bs = take ?n bs @ bs ! ?n # drop (Suc ?n) bs"
    using n by (rule id_take_nth_drop)
  have "write_rows ?names (header_line ?names) (take ?n bs @ bs ! ?n # drop (Suc ?n) bs) =
      (header_line ?names @ concat rows, Some (AttributeError ''NoneType'' ''replace''))"
  proof (rule write_rows_stop)
    show "length rows = length (take ?n bs)" using rows(1) n by simp
    show "\<forall>i < length (take ?n bs). csv_row ?names (take ?n bs ! i) = Inr (rows ! i)"
      using rows(2) by simp
    show "csv_row ?names (bs ! ?n) = Inl (AttributeError ''NoneType'' ''replace'')" by (rule stop)
  qed
  with split have "write_csv ?names (res_tests (results ?st)) =
      (header_line ?names @ concat rows, Some (AttributeError ''NoneType'' ''replace''))"
    by (simp add: write_csv_def)
  from run_evaluation_csv_error [OF bs(3) this]
  have run: "run_evaluation be now ?tests models d0 =
      (\<lparr> json_file = Some ?snap,
          csv_file = Some (concat ((join_str [TAB] (''ID'' # ''Category'' # ''Question'' # ?names)
                                      @ [NL]) # rows)) \<rparr>,
       Inl (AttributeError ''NoneType'' ''replace''))"
    by (cases d0) (simp add: header_line_columns)
  have keys: "\<forall>b \<in> set bs. fst ` set (tr_responses b) = fst ` set models"
  proof
    fix b assume "b \<in> set bs"
    then obtain i where "i < length bs" "bs ! i = b" by (auto simp add: in_set_conv_nth)
    with bs(1,2) have "build_bundle be models (i * length models) (?tests ! i) =
        Inr (Suc i * length models, b)" by auto
    from build_bundle_keys [OF this] show "fst ` set (tr_responses b) = fst ` set models" by simp
  qed
  have kept: "\<forall>i < length ?tests. \<forall>ms1 n mid ms2.
        models = ms1 @ (n, mid) # ms2 \<longrightarrow> n \<notin> fst ` set ms2 \<longrightarrow>
        map_of (tr_responses (bs ! i)) n =
          Some (query_ollama (be (Suc (i * length models + length ms1))) mid (tr_question (bs ! i)))"
  proof (intro allI impI)
    fix i ms1 n mid ms2
    assume i: "i < length ?tests" and m: "models = ms1 @ (n, mid) # ms2" and l: "n \<notin> fst ` set ms2"
    from bs(2) i have "build_bundle be models (i * length models) (?tests ! i) =
                 Inr (Suc i * length models, bs ! i)" by blast
    from build_bundle_kept [OF this m l]
    show "map_of (tr_responses (bs ! i)) n =
          Some (query_ollama (be (Suc (i * length models + length ms1))) mid (tr_question (bs ! i)))" .
  qed
  show ?thesis
    apply (rule exI [of _ ?st])
    apply (rule exI [of _ ?snap])
    apply (rule exI [of _ rows])
    apply (intro conjI)
    apply (rule bs(3))
    apply simp
    apply simp
    apply (rule run)
    using bs(1) apply simp
    using q apply simp
    using keys apply simp
    using kept apply simp
    apply (rule rows(1))
    using rows(2) apply simp
    done
qed

theorem null_question_aborts_export_witness:
  "\<exists>st snap rows.
     run_tests example_backend example_models (initial_state example_now example_models empty_disk)
       ([PDict spec_record] @ PDict no_question_record # [PDict alias_record]) = (st, None) \<and>
     current st = 6 \<and>
     run_evaluation example_backend example_now
       ([PDict spec_record] @ PDict no_question_record # [PDict alias_record]) example_models empty_disk =
       (\<lparr> json_file = Some snap,
           csv_file = Some (concat ((spec_header @ [NL]) # rows)) \<rparr>,
        Inl (AttributeError ''NoneType'' ''replace'')) \<and>
     length (res_tests snap) = 3 \<and>
     tr_question (res_tests snap ! 1) = PNone \<and>
     length rows = 1"
proof -
  have h1: "\<forall>t \<in> set [PDict spec_record]. \<exists>tid q cat. make_test_result t =
        Inr \<lparr>tr_id = PStr tid, tr_question = PStr q, tr_category = PStr cat, tr_responses = []\<rparr>"
    by (simp add: make_test_result_def spec_record_def dict_get_def py_or_def py_truthy_def)
  have h5: "\<forall>t \<in> set [PDict alias_record]. is_dict t" by (simp add: is_dict_def)
  have h2: "\<forall>v. map_of no_question_record ''question'' = Some v \<longrightarrow> \<not> py_truthy v"
    by (simp add: no_question_record_def)
  have h3: "map_of no_question_record ''q'' = None" by (simp add: no_question_record_def)
  have h4: "\<forall>k mid q. is_str (query_ollama (example_backend k) mid q)"
    by (simp add: query_ollama_def try_body_def get_response_def py_get_def dict_get_def
        example_backend_def is_str_def)
  from null_question_aborts_export [OF h1 h5 h2 h3 h4, of example_models example_now empty_disk]
  obtain st snap rows where w:
    "run_tests example_backend example_models (initial_state example_now example_models empty_disk)
       ([PDict spec_record] @ PDict no_question_record # [PDict alias_record]) = (st, None)"
    "current st = length ([PDict spec_record] @ PDict no_question_record # [PDict alias_record]) *
       length example_models"
    "run_evaluation example_backend example_now
       ([PDict spec_record] @ PDict no_question_record # [PDict alias_record]) example_models empty_disk =
       (\<lparr> json_file = Some snap,
           csv_file = Some (concat ((join_str [TAB] (''ID'' # ''Category'' # ''Question'' #
                                       map fst example_models) @ [NL]) # rows)) \<rparr>,
        Inl (AttributeError ''NoneType'' ''replace''))"
    "length (res_tests snap) = length ([PDict spec_record] @ PDict no_question_record # [PDict alias_record])"
    "tr_question (res_tests snap ! length [PDict spec_record]) = PNone"
    "length rows = length [PDict spec_record]"
    by (elim conjE exE) (rule that, assumption+)
  show ?thesis
    apply (rule exI [of _ st])
    apply (rule exI [of _ snap])
    apply (rule exI [of _ rows])
    using w by (simp add: example_models_def spec_header_def)
qed

text \<open>
  C9 as stated fails where it says that only the JSON file is left: the run of the spec's
  test case followed by a record without a question leaves a CSV file too, with the
  header row and the row of the first test.
\<close>

theorem null_question_leaves_partial_csv:
  "run_evaluation example_backend example_now [PDict spec_record, PDict no_question_record]
     example_models empty_disk =
     (\<lparr> json_file = Some \<lparr> res_timestamp = example_now, res_models = [''A'', ''B''],
                            res_tests = [spec_bundle, no_question_bundle] \<rparr>,
         csv_file = Some (spec_header @ [NL] @ spec_row @ [NL]) \<rparr>,
      Inl (AttributeError ''NoneType'' ''replace''))"
  by (simp add: run_evaluation_def initial_state_def process_test_def build_bundle_def
      make_test_result_def spec_record_def no_question_record_def dict_get_def py_or_def
      py_truthy_def example_models_def query_ollama_def try_body_def get_response_def py_get_def
      example_backend_def empty_disk_def write_csv_def header_line_def csv_row_def row_cells_def
      response_cell_def replace_tab_nl_def replace_char_def py_join_def spec_header_def spec_row_def
      spec_bundle_def no_question_bundle_def type_name_def Let_def TAB_def NL_def)

end
